theory Spec2Isabelle
  imports Main "HOL-Library.Sublist"
begin

section \<open>Python values and exceptions\<close>

text \<open>
  The server handles decoded JSON: tool arguments (\<open>dict | None\<close>) and response bodies
  (\<open>response.json()\<close>). A JSON object is an association list read with \<open>map_of\<close>; the
  order of the pairs is the insertion order of the Python dict. Numbers are integers:
  JSON numbers with a fractional part are outside this model.
\<close>

datatype json =
    JNull
  | JBool bool
  | JInt int
  | JStr string
  | JList "json list"
  | JDict "(string \<times> json) list"

type_synonym dict = "(string \<times> json) list"

text \<open>
  The exceptions that the code raises itself or that Python raises on its behalf.
  \<open>ValueError\<close> and \<open>HTTPError\<close> carry \<open>str(e)\<close>, \<open>KeyError\<close> the missing key.
  \<open>TypeError\<close> and \<open>AttributeError\<close> arise when a response does not have the shape a
  handler expects (subscripting or iterating a non-container, \<open>.get\<close> on a non-dict).
  \<open>JSONDecodeError\<close> is raised by \<open>response.json()\<close> on a body that is not JSON.
\<close>

datatype error =
    ValueError string
  | KeyError string
  | TypeError
  | AttributeError
  | JSONDecodeError string
  | HTTPError string

definition bind_r :: "error + 'a \<Rightarrow> ('a \<Rightarrow> error + 'b) \<Rightarrow> error + 'b" where
  "bind_r r f = (case r of Inl e \<Rightarrow> Inl e | Inr v \<Rightarrow> f v)"

text \<open>Truthiness, as tested by \<open>if x\<close>, \<open>if not x\<close> and \<open>if y := x\<close>.\<close>

fun py_truthy :: "json \<Rightarrow> bool" where
  "py_truthy JNull = False"
| "py_truthy (JBool b) = b"
| "py_truthy (JInt i) = (i \<noteq> 0)"
| "py_truthy (JStr s) = (s \<noteq> [])"
| "py_truthy (JList xs) = (xs \<noteq> [])"
| "py_truthy (JDict kvs) = (kvs \<noteq> [])"

text \<open>Decimal rendering of an integer, as \<open>str\<close> gives it.\<close>

fun str_nat :: "nat \<Rightarrow> string" where
  "str_nat n = (if n < 10 then [''0123456789'' ! n]
                else str_nat (n div 10) @ [''0123456789'' ! (n mod 10)])"

definition str_int :: "int \<Rightarrow> string" where
  "str_int i = (if i < 0 then ''-'' @ str_nat (nat (- i)) else str_nat (nat i))"

text \<open>
  \<open>str(v)\<close>, which is what an f-string field \<open>{v}\<close> inserts. The \<open>repr\<close> of a list or
  a dict is Python's own and is taken as the parameter \<open>rp\<close>.
\<close>

fun py_str :: "(json \<Rightarrow> string) \<Rightarrow> json \<Rightarrow> string" where
  "py_str rp JNull = ''None''"
| "py_str rp (JBool b) = (if b then ''True'' else ''False'')"
| "py_str rp (JInt i) = str_int i"
| "py_str rp (JStr s) = s"
| "py_str rp (JList xs) = rp (JList xs)"
| "py_str rp (JDict kvs) = rp (JDict kvs)"

text \<open>\<open>d.get(k)\<close> on a dict: the value, or \<open>None\<close>.\<close>

definition dict_get :: "dict \<Rightarrow> string \<Rightarrow> json" where
  "dict_get d k = (case map_of d k of None \<Rightarrow> JNull | Some v \<Rightarrow> v)"

text \<open>\<open>d[k]\<close> on a dict: the value, or \<open>KeyError\<close>.\<close>

definition dict_item :: "dict \<Rightarrow> string \<Rightarrow> error + json" where
  "dict_item d k = (case map_of d k of None \<Rightarrow> Inl (KeyError k) | Some v \<Rightarrow> Inr v)"

text \<open>\<open>v[k]\<close> with a string key on any decoded value: only a dict can be subscripted so.\<close>

fun subscript :: "json \<Rightarrow> string \<Rightarrow> error + json" where
  "subscript (JDict d) k = dict_item d k"
| "subscript v k = Inl TypeError"

text \<open>\<open>v.get(k, default)\<close> on any decoded value: only a dict has \<open>get\<close>.\<close>

fun get_default :: "json \<Rightarrow> string \<Rightarrow> json \<Rightarrow> error + json" where
  "get_default (JDict d) k dflt = (case map_of d k of None \<Rightarrow> Inr dflt | Some v \<Rightarrow> Inr v)"
| "get_default v k dflt = Inl AttributeError"

text \<open>
  Iteration (\<open>for x in v\<close>): a list gives its elements, a dict its keys, a string its
  characters; the other values are not iterable.
\<close>

fun py_iter :: "json \<Rightarrow> error + json list" where
  "py_iter (JList xs) = Inr xs"
| "py_iter (JDict d) = Inr (map (\<lambda>kv. JStr (fst kv)) d)"
| "py_iter (JStr s) = Inr (map (\<lambda>c. JStr [c]) s)"
| "py_iter v = Inl TypeError"

text \<open>
  The slice \<open>v[:n]\<close>: defined on lists and strings. On a dict Python raises
  (\<open>TypeError\<close>, or \<open>KeyError\<close> from version 3.12 on), on the scalars \<open>TypeError\<close>; the
  model gives \<open>TypeError\<close> for all of these.
\<close>

fun py_slice_to :: "json \<Rightarrow> nat \<Rightarrow> error + json" where
  "py_slice_to (JList xs) n = Inr (JList (take n xs))"
| "py_slice_to (JStr s) n = Inr (JStr (take n s))"
| "py_slice_to v n = Inl TypeError"

text \<open>A list comprehension \<open>[f(x) for x in xs]\<close> whose body may raise: the first error wins.\<close>

fun map_result :: "('a \<Rightarrow> error + 'b) \<Rightarrow> 'a list \<Rightarrow> error + 'b list" where
  "map_result f [] = Inr []"
| "map_result f (x # xs) =
     (case f x of Inl e \<Rightarrow> Inl e
      | Inr y \<Rightarrow> (case map_result f xs of Inl e \<Rightarrow> Inl e | Inr ys \<Rightarrow> Inr (y # ys)))"

text \<open>\<open>sep.join(xs)\<close>.\<close>

fun join :: "string \<Rightarrow> string list \<Rightarrow> string" where
  "join sep [] = []"
| "join sep [x] = x"
| "join sep (x # y # ys) = x @ sep @ join sep (y # ys)"

definition nl :: string where
  "nl = [CHR 0x0A]"

text \<open>\<open>s.endswith(x)\<close>.\<close>

definition endswith :: "string \<Rightarrow> string \<Rightarrow> bool" where
  "endswith s x = (length x \<le> length s \<and> drop (length s - length x) s = x)"

text \<open>\<open>any(...)\<close> over the values of a generator expression.\<close>

fun py_any :: "bool list \<Rightarrow> bool" where
  "py_any [] = False"
| "py_any (b # bs) = (b \<or> py_any bs)"

section \<open>The API client\<close>

text \<open>
  One HTTP request, as \<open>client.request\<close> receives it. The timeout of \<open>30.0\<close> seconds is
  kept as the number 30.
\<close>

record request =
  http_method :: string
  url :: string
  headers :: "(string \<times> string) list"
  json_body :: "dict option"
  params :: "dict option"
  timeout :: nat

text \<open>
  What happens to a request once it is handed to \<open>httpx\<close>: a 2xx response whose body
  decodes to a JSON value; an \<open>httpx.HTTPError\<close> (a transport failure raised by
  \<open>client.request\<close>, or the status error raised by \<open>raise_for_status\<close>) with its message;
  or a body that \<open>response.json()\<close> cannot decode.
\<close>

datatype outcome =
    Success json
  | HTTPFailure string
  | DecodeFailure string

text \<open>
  The process-wide state: the credential read from the environment at import time
  (\<open>os.getenv\<close> gives \<open>None\<close> when the variable is unset) and the remote service.
\<close>

record env =
  SHORTCUT_API_TOKEN :: "string option"
  remote :: "request \<Rightarrow> outcome"

definition API_BASE_URL :: string where
  "API_BASE_URL = ''https://api.app.shortcut.com/api/v3''"

text \<open>\<open>not SHORTCUT_API_TOKEN\<close>: the variable is unset or empty.\<close>

definition token_missing :: "env \<Rightarrow> bool" where
  "token_missing e = (case SHORTCUT_API_TOKEN e of None \<Rightarrow> True | Some t \<Rightarrow> t = [])"

definition build_request :: "env \<Rightarrow> string \<Rightarrow> string \<Rightarrow> dict option \<Rightarrow> dict option \<Rightarrow> request" where
  "build_request e m endpoint js ps =
     \<lparr> http_method = m,
       url = API_BASE_URL @ ''/'' @ endpoint,
       headers = [(''Content-Type'', ''application/json''),
                  (''Shortcut-Token'', (case SHORTCUT_API_TOKEN e of None \<Rightarrow> [] | Some t \<Rightarrow> t))],
       json_body = js,
       params = ps,
       timeout = 30 \<rparr>"

definition send :: "env \<Rightarrow> request \<Rightarrow> error + json" where
  "send e req =
     (case remote e req of
        Success v \<Rightarrow> Inr v
      | HTTPFailure msg \<Rightarrow> Inl (HTTPError msg)
      | DecodeFailure msg \<Rightarrow> Inl (JSONDecodeError msg))"

text \<open>The three errors that \<open>make_shortcut_request\<close> raises itself, with their messages.\<close>

definition method_not_allowed :: "string \<Rightarrow> error" where
  "method_not_allowed m = ValueError (''Method '' @ m @
     '' is not allowed for safety reasons. Only GET and POST are permitted.'')"

definition post_not_allowed :: "string \<Rightarrow> error" where
  "post_not_allowed endpoint = ValueError
     (''POST requests are only allowed for creation endpoints, not for '' @ endpoint)"

definition token_not_set :: error where
  "token_not_set = ValueError ''SHORTCUT_API_TOKEN environment variable not set''"

text \<open>
  A computation of the server: its result or the exception it raises, paired with the
  list of requests that were handed to the network, in order.
\<close>

type_synonym 'a io = "(error + 'a) \<times> request list"

definition lift :: "error + 'a \<Rightarrow> 'a io" where
  "lift r = (r, [])"

definition bind_io :: "'a io \<Rightarrow> ('a \<Rightarrow> 'b io) \<Rightarrow> 'b io" where
  "bind_io m f =
     (case fst m of
        Inl e \<Rightarrow> (Inl e, snd m)
      | Inr v \<Rightarrow> (fst (f v), snd m @ snd (f v)))"

text \<open>
  \<open>make_shortcut_request\<close>: the two safety checks and the credential check come before
  the request is built; a check that raises leaves the list of requests empty.
\<close>

definition make_shortcut_request ::
  "env \<Rightarrow> string \<Rightarrow> string \<Rightarrow> dict option \<Rightarrow> dict option \<Rightarrow> json io" where
  "make_shortcut_request e m endpoint js ps =
     (if m \<notin> set [''GET'', ''POST''] then (Inl (method_not_allowed m), [])
      else if m = ''POST'' \<and>
              \<not> py_any (map (\<lambda>x. endswith endpoint x) [''stories'', ''epics'', ''objectives''])
      then (Inl (post_not_allowed endpoint), [])
      else if token_missing e then (Inl token_not_set, [])
      else (send e (build_request e m endpoint js ps), [build_request e m endpoint js ps]))"

section \<open>The formatters\<close>

definition format_objective :: "(json \<Rightarrow> string) \<Rightarrow> json \<Rightarrow> error + string" where
  "format_objective rp objective =
     bind_r (subscript objective ''name'') (\<lambda>name.
     bind_r (get_default objective ''status'' (JStr ''Unknown'')) (\<lambda>status.
     bind_r (get_default objective ''description'' (JStr ''No description'')) (\<lambda>description.
     bind_r (get_default objective ''app_url'' (JStr [])) (\<lambda>app_url.
     Inr (''Objective: '' @ py_str rp name @ nl @
          ''Status: '' @ py_str rp status @ nl @
          ''Description: '' @ py_str rp description @ nl @
          ''URL: '' @ py_str rp app_url @ nl @
          ''---'')))))"

definition format_epic :: "(json \<Rightarrow> string) \<Rightarrow> json \<Rightarrow> error + string" where
  "format_epic rp epic =
     bind_r (subscript epic ''name'') (\<lambda>name.
     bind_r (get_default epic ''state'' (JStr ''Unknown'')) (\<lambda>state.
     bind_r (get_default epic ''description'' (JStr ''No description'')) (\<lambda>description.
     bind_r (get_default epic ''milestone'' (JDict [])) (\<lambda>milestone.
     bind_r (get_default milestone ''name'' (JStr ''None'')) (\<lambda>milestone_name.
     bind_r (get_default epic ''app_url'' (JStr [])) (\<lambda>app_url.
     Inr (''Epic: '' @ py_str rp name @ nl @
          ''Status: '' @ py_str rp state @ nl @
          ''Description: '' @ py_str rp description @ nl @
          ''Milestone: '' @ py_str rp milestone_name @ nl @
          ''URL: '' @ py_str rp app_url @ nl @
          ''---'')))))))"

definition format_story :: "(json \<Rightarrow> string) \<Rightarrow> json \<Rightarrow> error + string" where
  "format_story rp story =
     bind_r (subscript story ''id'') (\<lambda>story_id.
     bind_r (subscript story ''name'') (\<lambda>name.
     bind_r (get_default story ''workflow_state'' (JDict [])) (\<lambda>workflow_state.
     bind_r (get_default workflow_state ''name'' (JStr ''Unknown'')) (\<lambda>state_name.
     bind_r (get_default story ''story_type'' (JStr ''Unknown'')) (\<lambda>story_type.
     bind_r (get_default story ''description'' (JStr ''No description'')) (\<lambda>description.
     bind_r (get_default story ''app_url'' (JStr [])) (\<lambda>app_url.
     Inr (''Story '' @ py_str rp story_id @ '': '' @ py_str rp name @ nl @
          ''Status: '' @ py_str rp state_name @ nl @
          ''Type: '' @ py_str rp story_type @ nl @
          ''Description: '' @ py_str rp description @ nl @
          ''URL: '' @ py_str rp app_url @ nl @
          ''---''))))))))"

text \<open>The body of the loop over the projects (\<open>list-projects\<close>).\<close>

definition format_project :: "(json \<Rightarrow> string) \<Rightarrow> json \<Rightarrow> error + string" where
  "format_project rp project =
     bind_r (subscript project ''id'') (\<lambda>project_id.
     bind_r (subscript project ''name'') (\<lambda>name.
     bind_r (get_default project ''description'' (JStr ''No description'')) (\<lambda>description.
     Inr (''Project ID: '' @ py_str rp project_id @ nl @
          ''Name: '' @ py_str rp name @ nl @
          ''Description: '' @ py_str rp description @ nl @
          ''---''))))"

text \<open>
  The body of the loop over the workflows (\<open>list-workflows\<close>): the lines of the states
  are built first, then the workflow's own name is read.
\<close>

definition format_state :: "(json \<Rightarrow> string) \<Rightarrow> json \<Rightarrow> error + string" where
  "format_state rp state =
     bind_r (subscript state ''name'') (\<lambda>name.
     bind_r (subscript state ''id'') (\<lambda>state_id.
     Inr (''- '' @ py_str rp name @ '' (ID: '' @ py_str rp state_id @ '')'')))"

definition format_workflow :: "(json \<Rightarrow> string) \<Rightarrow> json \<Rightarrow> error + string" where
  "format_workflow rp workflow =
     bind_r (get_default workflow ''states'' (JList [])) (\<lambda>states_value.
     bind_r (py_iter states_value) (\<lambda>state_list.
     bind_r (map_result (format_state rp) state_list) (\<lambda>states.
     bind_r (subscript workflow ''name'') (\<lambda>name.
     Inr (''Workflow: '' @ py_str rp name @ nl @
          ''States:'' @ nl @ join nl states @ nl @
          ''---'')))))"

section \<open>The tool catalog\<close>

record property =
  prop_type :: string
  prop_description :: string
  prop_enum :: "string list option"

text \<open>
  A \<open>types.Tool\<close> with its \<open>inputSchema\<close>: the properties by name and the names listed
  under \<open>"required"\<close> (none when the schema has no such entry).
\<close>

record tool =
  tool_name :: string
  tool_description :: string
  properties :: "(string \<times> property) list"
  required :: "string list"

text \<open>
  \<open>handle_list_tools\<close>. The display name of the authenticated user, which the source
  reads from an object outside this file, is the parameter \<open>user\<close>; it only appears
  in descriptions.
\<close>

definition handle_list_tools :: "string \<Rightarrow> tool list" where
  "handle_list_tools user =
     [ \<lparr> tool_name = ''search-stories'',
         tool_description = ''Search for stories in Shortcut'',
         properties =
           [(''query'', \<lparr> prop_type = ''string'',
               prop_description = ''Search query (e.g. story title, description, or ID)'',
               prop_enum = None \<rparr>)],
         required = [''query''] \<rparr>,
       \<lparr> tool_name = ''create-story'',
         tool_description = ''Create a new story in Shortcut (Will be created as '' @ user @ '')'',
         properties =
           [(''name'', \<lparr> prop_type = ''string'', prop_description = ''Story title'',
               prop_enum = None \<rparr>),
            (''description'', \<lparr> prop_type = ''string'', prop_description = ''Story description'',
               prop_enum = None \<rparr>),
            (''story_type'', \<lparr> prop_type = ''string'',
               prop_description = ''Story type (feature, bug, chore)'',
               prop_enum = Some [''feature'', ''bug'', ''chore''] \<rparr>),
            (''project_id'', \<lparr> prop_type = ''number'',
               prop_description = ''Project ID to create the story in'',
               prop_enum = None \<rparr>)],
         required = [''name'', ''description'', ''story_type'', ''project_id''] \<rparr>,
       \<lparr> tool_name = ''list-projects'',
         tool_description = ''List all projects in Shortcut'',
         properties = [],
         required = [] \<rparr>,
       \<lparr> tool_name = ''list-workflows'',
         tool_description = ''List all workflows and their states'',
         properties = [],
         required = [] \<rparr>,
       \<lparr> tool_name = ''list-objectives'',
         tool_description = ''List all objectives in Shortcut'',
         properties =
           [(''status'', \<lparr> prop_type = ''string'',
               prop_description = ''Filter by status (active, draft, closed)'',
               prop_enum = Some [''active'', ''draft'', ''closed''] \<rparr>)],
         required = [] \<rparr>,
       \<lparr> tool_name = ''create-objective'',
         tool_description = ''Create a new objective in Shortcut (Will be created as '' @ user @ '')'',
         properties =
           [(''name'', \<lparr> prop_type = ''string'', prop_description = ''Objective name'',
               prop_enum = None \<rparr>),
            (''description'', \<lparr> prop_type = ''string'',
               prop_description = ''Objective description'', prop_enum = None \<rparr>),
            (''status'', \<lparr> prop_type = ''string'', prop_description = ''Objective status'',
               prop_enum = Some [''active'', ''draft'', ''closed''] \<rparr>)],
         required = [''name'', ''description'', ''status''] \<rparr>,
       \<lparr> tool_name = ''list-epics'',
         tool_description = ''List epics in Shortcut'',
         properties =
           [(''status'', \<lparr> prop_type = ''string'',
               prop_description = ''Filter by status (to do, in progress, done)'',
               prop_enum = Some [''to do'', ''in progress'', ''done''] \<rparr>)],
         required = [] \<rparr>,
       \<lparr> tool_name = ''create-epic'',
         tool_description = ''Create a new epic in Shortcut (Will be created as '' @ user @ '')'',
         properties =
           [(''name'', \<lparr> prop_type = ''string'', prop_description = ''Epic name'',
               prop_enum = None \<rparr>),
            (''description'', \<lparr> prop_type = ''string'', prop_description = ''Epic description'',
               prop_enum = None \<rparr>),
            (''milestone_id'', \<lparr> prop_type = ''number'',
               prop_description = ''Optional milestone ID to associate with the epic'',
               prop_enum = None \<rparr>)],
         required = [''name'', ''description''] \<rparr> ]"

text \<open>What the catalog declares for a tool name: its required fields and whether it is listed.\<close>

definition catalog_names :: "string list" where
  "catalog_names = map tool_name (handle_list_tools [])"

definition required_fields :: "string \<Rightarrow> string list" where
  "required_fields name =
     (case find (\<lambda>t. tool_name t = name) (handle_list_tools []) of
        None \<Rightarrow> []
      | Some t \<Rightarrow> required t)"

definition enum_choices :: "string \<Rightarrow> string \<Rightarrow> string list option" where
  "enum_choices name field =
     (case find (\<lambda>t. tool_name t = name) (handle_list_tools []) of
        None \<Rightarrow> None
      | Some t \<Rightarrow> (case map_of (properties t) field of None \<Rightarrow> None | Some p \<Rightarrow> prop_enum p))"

section \<open>The tool dispatcher\<close>

text \<open>The only content block the handlers build: \<open>types.TextContent(type="text", text=...)\<close>.\<close>

datatype content = TextContent string

text \<open>
  The branches of \<open>handle_call_tool\<close>, one definition for each tool name, in the order of
  the source. \<open>arguments\<close> is the non-empty dict that passed the first check.
\<close>

definition search_stories :: "env \<Rightarrow> (json \<Rightarrow> string) \<Rightarrow> dict \<Rightarrow> content list io" where
  "search_stories e rp arguments =
     (let query = dict_get arguments ''query'' in
      bind_io (make_shortcut_request e ''GET'' ''search/stories'' None (Some [(''query'', query)]))
        (\<lambda>search_results.
      bind_io (lift (get_default search_results ''data'' (JList []))) (\<lambda>stories.
      if \<not> py_truthy stories then
        lift (Inr [TextContent (''No stories found matching query: '' @ py_str rp query)])
      else
        bind_io (lift (py_slice_to stories 10)) (\<lambda>first_stories.
        bind_io (lift (py_iter first_stories)) (\<lambda>items.
        bind_io (lift (map_result (format_story rp) items)) (\<lambda>formatted_stories.
        lift (Inr [TextContent (''Found stories:'' @ nl @ nl @ join nl formatted_stories)])))))))"

definition create_story :: "env \<Rightarrow> (json \<Rightarrow> string) \<Rightarrow> dict \<Rightarrow> content list io" where
  "create_story e rp arguments =
     bind_io (lift (dict_item arguments ''name'')) (\<lambda>name.
     bind_io (lift (dict_item arguments ''description'')) (\<lambda>description.
     bind_io (lift (dict_item arguments ''story_type'')) (\<lambda>story_type.
     bind_io (lift (dict_item arguments ''project_id'')) (\<lambda>project_id.
     bind_io (make_shortcut_request e ''POST'' ''stories''
                (Some [(''name'', name), (''description'', description),
                       (''story_type'', story_type), (''project_id'', project_id)]) None)
       (\<lambda>new_story.
     bind_io (lift (format_story rp new_story)) (\<lambda>formatted.
     lift (Inr [TextContent (''Created new story:'' @ nl @ nl @ formatted)])))))))"

definition list_projects :: "env \<Rightarrow> (json \<Rightarrow> string) \<Rightarrow> dict \<Rightarrow> content list io" where
  "list_projects e rp arguments =
     bind_io (make_shortcut_request e ''GET'' ''projects'' None None) (\<lambda>projects.
     bind_io (lift (py_iter projects)) (\<lambda>items.
     bind_io (lift (map_result (format_project rp) items)) (\<lambda>formatted_projects.
     lift (Inr [TextContent (''Available projects:'' @ nl @ nl @ join nl formatted_projects)]))))"

definition list_workflows :: "env \<Rightarrow> (json \<Rightarrow> string) \<Rightarrow> dict \<Rightarrow> content list io" where
  "list_workflows e rp arguments =
     bind_io (make_shortcut_request e ''GET'' ''workflows'' None None) (\<lambda>workflows.
     bind_io (lift (py_iter workflows)) (\<lambda>items.
     bind_io (lift (map_result (format_workflow rp) items)) (\<lambda>formatted_workflows.
     lift (Inr [TextContent
       (''Available workflows and states:'' @ nl @ nl @ join nl formatted_workflows)]))))"

text \<open>\<open>params = {}\<close>, then \<open>if status := arguments.get("status"): params["status"] = status\<close>.\<close>

definition status_params :: "dict \<Rightarrow> dict" where
  "status_params arguments =
     (if py_truthy (dict_get arguments ''status'')
      then [(''status'', dict_get arguments ''status'')] else [])"

definition list_objectives :: "env \<Rightarrow> (json \<Rightarrow> string) \<Rightarrow> dict \<Rightarrow> content list io" where
  "list_objectives e rp arguments =
     bind_io (make_shortcut_request e ''GET'' ''objectives'' None (Some (status_params arguments)))
       (\<lambda>objectives.
     if \<not> py_truthy objectives then lift (Inr [TextContent ''No objectives found''])
     else
       bind_io (lift (py_iter objectives)) (\<lambda>items.
       bind_io (lift (map_result (format_objective rp) items)) (\<lambda>formatted_objectives.
       lift (Inr [TextContent (''Objectives:'' @ nl @ nl @ join nl formatted_objectives)]))))"

definition create_objective :: "env \<Rightarrow> (json \<Rightarrow> string) \<Rightarrow> dict \<Rightarrow> content list io" where
  "create_objective e rp arguments =
     bind_io (lift (dict_item arguments ''name'')) (\<lambda>name.
     bind_io (lift (dict_item arguments ''description'')) (\<lambda>description.
     bind_io (lift (dict_item arguments ''status'')) (\<lambda>status.
     bind_io (make_shortcut_request e ''POST'' ''objectives''
                (Some [(''name'', name), (''description'', description), (''status'', status)])
                None)
       (\<lambda>new_objective.
     bind_io (lift (format_objective rp new_objective)) (\<lambda>formatted.
     lift (Inr [TextContent (''Created new objective:'' @ nl @ nl @ formatted)]))))))"

definition list_epics :: "env \<Rightarrow> (json \<Rightarrow> string) \<Rightarrow> dict \<Rightarrow> content list io" where
  "list_epics e rp arguments =
     bind_io (make_shortcut_request e ''GET'' ''epics'' None (Some (status_params arguments)))
       (\<lambda>epics.
     if \<not> py_truthy epics then lift (Inr [TextContent ''No epics found''])
     else
       bind_io (lift (py_iter epics)) (\<lambda>items.
       bind_io (lift (map_result (format_epic rp) items)) (\<lambda>formatted_epics.
       lift (Inr [TextContent (''Epics:'' @ nl @ nl @ join nl formatted_epics)]))))"

definition create_epic :: "env \<Rightarrow> (json \<Rightarrow> string) \<Rightarrow> dict \<Rightarrow> content list io" where
  "create_epic e rp arguments =
     bind_io (lift (dict_item arguments ''name'')) (\<lambda>name.
     bind_io (lift (dict_item arguments ''description'')) (\<lambda>description.
     bind_io (make_shortcut_request e ''POST'' ''epics''
                (Some ([(''name'', name), (''description'', description)] @
                       (if py_truthy (dict_get arguments ''milestone_id'')
                        then [(''milestone_id'', dict_get arguments ''milestone_id'')] else [])))
                None)
       (\<lambda>new_epic.
     bind_io (lift (format_epic rp new_epic)) (\<lambda>formatted.
     lift (Inr [TextContent (''Created new epic:'' @ nl @ nl @ formatted)])))))"

text \<open>
  The body of the \<open>try\<close> block: the chain of comparisons on the tool name. (The \<open>else:\<close>
  that the source shows before the \<open>list-objectives\<close> branch has no body and is not a
  branch.)
\<close>

definition call_tool_body :: "env \<Rightarrow> (json \<Rightarrow> string) \<Rightarrow> string \<Rightarrow> dict \<Rightarrow> content list io" where
  "call_tool_body e rp name arguments =
     (if name = ''search-stories'' then search_stories e rp arguments
      else if name = ''create-story'' then create_story e rp arguments
      else if name = ''list-projects'' then list_projects e rp arguments
      else if name = ''list-workflows'' then list_workflows e rp arguments
      else if name = ''list-objectives'' then list_objectives e rp arguments
      else if name = ''create-objective'' then create_objective e rp arguments
      else if name = ''list-epics'' then list_epics e rp arguments
      else if name = ''create-epic'' then create_epic e rp arguments
      else (Inl (ValueError (''Unknown tool: '' @ name)), []))"

text \<open>\<open>not arguments\<close>: the argument map is absent (\<open>None\<close>) or empty.\<close>

definition no_arguments :: "dict option \<Rightarrow> bool" where
  "no_arguments arguments = (case arguments of None \<Rightarrow> True | Some a \<Rightarrow> a = [])"

text \<open>
  \<open>handle_call_tool\<close>: the check for arguments stands before the \<open>try\<close>; the one
  \<open>except\<close> clause catches \<open>httpx.HTTPError\<close> and nothing else, so every other
  exception leaves the function as raised.
\<close>

definition handle_call_tool ::
  "env \<Rightarrow> (json \<Rightarrow> string) \<Rightarrow> string \<Rightarrow> dict option \<Rightarrow> content list io" where
  "handle_call_tool e rp name arguments =
     (case arguments of
        None \<Rightarrow> (Inl (ValueError ''Missing arguments''), [])
      | Some a \<Rightarrow>
          if a = [] then (Inl (ValueError ''Missing arguments''), [])
          else (case call_tool_body e rp name a of
                  (Inl (HTTPError msg), sent) \<Rightarrow>
                     (Inr [TextContent (''API request failed: '' @ msg)], sent)
                | other \<Rightarrow> other))"

section \<open>Fixtures\<close>

text \<open>
  A configured process whose remote answers every request in the same way, a process
  without credential, and a stand-in for \<open>repr\<close>.
\<close>

definition fixture :: "outcome \<Rightarrow> env" where
  "fixture out = \<lparr> SHORTCUT_API_TOKEN = Some ''token'', remote = (\<lambda>req. out) \<rparr>"

definition unconfigured :: "outcome \<Rightarrow> env" where
  "unconfigured out = \<lparr> SHORTCUT_API_TOKEN = None, remote = (\<lambda>req. out) \<rparr>"

definition no_repr :: "json \<Rightarrow> string" where
  "no_repr v = []"

text \<open>A story record as the remote returns it, reduced to the two fields that are read strictly, and the block that \<open>format_story\<close> makes of it.\<close>

definition story_record :: "int \<Rightarrow> json" where
  "story_record i = JDict [(''id'', JInt i), (''name'', JStr ''s'')]"

definition story_block :: "int \<Rightarrow> string" where
  "story_block i =
     ''Story '' @ str_int i @ '': s'' @ nl @
     ''Status: Unknown'' @ nl @
     ''Type: Unknown'' @ nl @
     ''Description: No description'' @ nl @
     ''URL: '' @ nl @
     ''---''"

definition fifteen_stories :: "json list" where
  "fifteen_stories = map story_record [1, 2, 3, 4, 5, 6, 7, 8, 9, 10, 11, 12, 13, 14, 15]"

text \<open>An epic record of the same kind, and its block.\<close>

definition epic_record :: "int \<Rightarrow> json" where
  "epic_record i = JDict [(''id'', JInt i), (''name'', JStr ''e'')]"

definition epic_block :: string where
  "epic_block =
     ''Epic: e'' @ nl @
     ''Status: Unknown'' @ nl @
     ''Description: No description'' @ nl @
     ''Milestone: None'' @ nl @
     ''URL: '' @ nl @
     ''---''"

definition twelve_epics :: "json list" where
  "twelve_epics = map epic_record [1, 2, 3, 4, 5, 6, 7, 8, 9, 10, 11, 12]"

section \<open>Rejected arguments\<close>

text \<open>
  The exceptions by which \<open>handle_call_tool\<close> rejects its arguments: the
  \<open>ValueError("Missing arguments")\<close> of the first check and the \<open>KeyError\<close> of a strict
  lookup \<open>arguments[...]\<close>.
\<close>

definition input_error :: "error \<Rightarrow> bool" where
  "input_error err =
     (case err of
        ValueError msg \<Rightarrow> msg = ''Missing arguments''
      | KeyError k \<Rightarrow> True
      | _ \<Rightarrow> False)"

text \<open>
  The condition under which the specification expects a call to be rejected as invalid
  input, read off the catalog: no arguments for a tool with a required field, a required
  field that is missing, or a value outside the enumerated choices of its field.
\<close>

definition claimed_invalid_input :: "string \<Rightarrow> dict option \<Rightarrow> bool" where
  "claimed_invalid_input name arguments =
     (case arguments of
        None \<Rightarrow> required_fields name \<noteq> []
      | Some a \<Rightarrow>
          (a = [] \<and> required_fields name \<noteq> []) \<or>
          list_ex (\<lambda>f. map_of a f = None) (required_fields name) \<or>
          list_ex (\<lambda>kv. case enum_choices name (fst kv) of
                           None \<Rightarrow> False
                         | Some choices \<Rightarrow> snd kv \<notin> set (map JStr choices)) a)"

section \<open>Blocks in a returned text\<close>

text \<open>
  The measure of the listings: the lines of a text, cut at every line break,
  and the number of lines that are the record separator \<open>---\<close>, with which every
  formatter ends its block.
\<close>

fun split_lines :: "string \<Rightarrow> string list" where
  "split_lines [] = [[]]"
| "split_lines (c # cs) =
     (if c = CHR 0x0A then [] # split_lines cs
      else (case split_lines cs of [] \<Rightarrow> [[c]] | l # ls \<Rightarrow> (c # l) # ls))"

definition count_blocks :: "string \<Rightarrow> nat" where
  "count_blocks text = length (filter (\<lambda>l. l = ''---'') (split_lines text))"

text \<open>
  A separator line can only be counted as the end of a block when no field of a record
  brings a line break of its own. A record is plain when the \<open>str\<close> of each of its
  values is a single line, and so is each value of a dict nested in it (the workflow
  state of a story, the milestone of an epic) and of the dicts of a list nested in it
  (the states of a workflow).
\<close>

definition single_line :: "string \<Rightarrow> bool" where
  "single_line s = (CHR 0x0A \<notin> set s)"

definition plain_dict :: "(json \<Rightarrow> string) \<Rightarrow> dict \<Rightarrow> bool" where
  "plain_dict rp d = list_all (\<lambda>kv. single_line (py_str rp (snd kv))) d"

fun plain_inner :: "(json \<Rightarrow> string) \<Rightarrow> json \<Rightarrow> bool" where
  "plain_inner rp (JDict w) = plain_dict rp w"
| "plain_inner rp (JList xs) =
     list_all (\<lambda>x. case x of JDict w \<Rightarrow> plain_dict rp w | _ \<Rightarrow> True) xs"
| "plain_inner rp v = True"

fun plain_record :: "(json \<Rightarrow> string) \<Rightarrow> json \<Rightarrow> bool" where
  "plain_record rp (JDict r) = (plain_dict rp r \<and> list_all (\<lambda>kv. plain_inner rp (snd kv)) r)"
| "plain_record rp v = False"

text \<open>
  The text of a listing, written without the functions of the code: the header, an empty
  line, and the blocks in their order, each but the first behind a line break.
\<close>

definition blocks_text :: "string \<Rightarrow> string list \<Rightarrow> string" where
  "blocks_text header blocks =
     header @ [CHR 0x0A, CHR 0x0A] @
     (case blocks of [] \<Rightarrow> [] | b # bs \<Rightarrow> b @ concat (map (\<lambda>x. CHR 0x0A # x) bs))"

section \<open>The safety policy of the API client\<close>

lemma endswith_append: "endswith (p @ x) x"
  by (simp add: endswith_def)

lemma endswith_iff_suffix: "endswith s x = suffix x s"
  unfolding endswith_def suffix_def
proof
  assume h: "length x \<le> length s \<and> drop (length s - length x) s = x"
  then have "s = take (length s - length x) s @ x"
    by (metis append_take_drop_id)
  then show "\<exists>zs. s = zs @ x" by blast
next
  assume "\<exists>zs. s = zs @ x"
  then show "length x \<le> length s \<and> drop (length s - length x) s = x" by auto
qed

lemma send_not_ValueError: "send e r \<noteq> Inl (ValueError msg)"
  by (simp add: send_def split: outcome.split)

text \<open>
  C2: for every endpoint and every method other than GET and POST (DELETE and PUT, for
  example), \<open>make_shortcut_request\<close> raises the method policy error and hands no request
  to the network, whatever the credential and the remote are.
\<close>

theorem request_method_policy:
  "m \<notin> {''GET'', ''POST''} \<Longrightarrow>
     make_shortcut_request e m endpoint js ps = (Inl (method_not_allowed m), [])"
  by (simp add: make_shortcut_request_def)

theorem request_method_policy_witness:
  "''DELETE'' \<notin> {''GET'', ''POST''} \<and> ''PUT'' \<notin> {''GET'', ''POST''} \<and>
   make_shortcut_request (fixture (Success JNull)) ''DELETE'' ''stories/1'' None None =
     (Inl (ValueError
        ''Method DELETE is not allowed for safety reasons. Only GET and POST are permitted.''), []) \<and>
   make_shortcut_request (unconfigured (Success JNull)) ''PUT'' ''stories/1'' None None =
     (Inl (ValueError
        ''Method PUT is not allowed for safety reasons. Only GET and POST are permitted.''), [])"
  using request_method_policy [of "''DELETE''" "fixture (Success JNull)" "''stories/1''" None None]
        request_method_policy [of "''PUT''" "unconfigured (Success JNull)" "''stories/1''" None None]
  by (simp add: method_not_allowed_def)

text \<open>
  C3: a POST raises the endpoint policy error exactly when the endpoint ends with none
  of the suffixes stories, epics, objectives; so POST workflows raises it and POST
  stories does not.
\<close>

theorem post_policy_iff:
  "(fst (make_shortcut_request e ''POST'' endpoint js ps) = Inl (post_not_allowed endpoint)) =
   (\<not> (suffix ''stories'' endpoint \<or> suffix ''epics'' endpoint \<or>
        suffix ''objectives'' endpoint))"
  by (simp add: make_shortcut_request_def post_not_allowed_def token_not_set_def
      send_not_ValueError endswith_iff_suffix)

theorem post_policy_iff_witness:
  "fst (make_shortcut_request (fixture (Success JNull)) ''POST'' ''workflows'' None None) =
     Inl (ValueError ''POST requests are only allowed for creation endpoints, not for workflows'') \<and>
   fst (make_shortcut_request (fixture (Success JNull)) ''POST'' ''stories'' None None) \<noteq>
     Inl (ValueError ''POST requests are only allowed for creation endpoints, not for stories'')"
  using post_policy_iff [of "fixture (Success JNull)" "''workflows''" None None]
        post_policy_iff [of "fixture (Success JNull)" "''stories''" None None]
  by (simp add: post_not_allowed_def endswith_iff_suffix [symmetric] endswith_def)

text \<open>
  C10: the POST check is a suffix test and nothing more: for every endpoint that ends
  with stories, epics or objectives, whatever stands before the suffix (search/stories
  included), a POST passes the policy checks and goes on to the credential check and the
  network.
\<close>

theorem post_suffix_passes:
  "x \<in> {''stories'', ''epics'', ''objectives''} \<Longrightarrow>
     make_shortcut_request e ''POST'' (p @ x) js ps =
       (if token_missing e then (Inl token_not_set, [])
        else (send e (build_request e ''POST'' (p @ x) js ps),
              [build_request e ''POST'' (p @ x) js ps]))"
  using endswith_append [of p x]
  by (auto simp add: make_shortcut_request_def)

theorem post_suffix_passes_witness:
  "''stories'' \<in> {''stories'', ''epics'', ''objectives''} \<and>
   make_shortcut_request (fixture (Success JNull)) ''POST'' ''search/stories'' None None =
     (Inr JNull,
      [\<lparr> http_method = ''POST'', url = ''https://api.app.shortcut.com/api/v3/search/stories'',
         headers = [(''Content-Type'', ''application/json''), (''Shortcut-Token'', ''token'')],
         json_body = None, params = None, timeout = 30 \<rparr>])"
  using post_suffix_passes [of "''stories''" "fixture (Success JNull)" "''search/''" None None]
  by (simp add: fixture_def token_missing_def send_def build_request_def API_BASE_URL_def)

section \<open>The dispatcher: auxiliary facts\<close>

lemma bind_io_lift_Inr [simp]: "bind_io (lift (Inr v)) f = f v"
  by (simp add: bind_io_def lift_def)

lemma bind_io_lift_Inl [simp]: "bind_io (lift (Inl err)) f = (Inl err, [])"
  by (simp add: bind_io_def lift_def)

lemma bind_io_Inl [simp]: "bind_io (Inl err, sent) f = (Inl err, sent)"
  by (simp add: bind_io_def)

lemma bind_io_Inr [simp]: "bind_io (Inr v, sent) f = (fst (f v), sent @ snd (f v))"
  by (simp add: bind_io_def)

lemma bind_io_sent: "bind_io (r, x # sent) f \<noteq> (y, [])"
  by (cases r) simp_all

lemma get_request:
  "make_shortcut_request e ''GET'' endpoint js ps =
     (if token_missing e then (Inl token_not_set, [])
      else (send e (build_request e ''GET'' endpoint js ps),
            [build_request e ''GET'' endpoint js ps]))"
  by (simp add: make_shortcut_request_def)

lemma post_request:
  "endpoint \<in> {''stories'', ''epics'', ''objectives''} \<Longrightarrow>
   make_shortcut_request e ''POST'' endpoint js ps =
     (if token_missing e then (Inl token_not_set, [])
      else (send e (build_request e ''POST'' endpoint js ps),
            [build_request e ''POST'' endpoint js ps]))"
  by (auto simp add: make_shortcut_request_def endswith_def)

lemma catalog_names_eq:
  "catalog_names = [''search-stories'', ''create-story'', ''list-projects'', ''list-workflows'',
     ''list-objectives'', ''create-objective'', ''list-epics'', ''create-epic'']"
  by (simp add: catalog_names_def handle_list_tools_def)

lemma required_fields_eq:
  "required_fields ''search-stories'' = [''query'']"
  "required_fields ''create-story'' = [''name'', ''description'', ''story_type'', ''project_id'']"
  "required_fields ''list-projects'' = []"
  "required_fields ''list-workflows'' = []"
  "required_fields ''list-objectives'' = []"
  "required_fields ''create-objective'' = [''name'', ''description'', ''status'']"
  "required_fields ''list-epics'' = []"
  "required_fields ''create-epic'' = [''name'', ''description'']"
  by (simp_all add: required_fields_def handle_list_tools_def)

lemma required_nonempty_cases:
  "required_fields name \<noteq> [] \<Longrightarrow>
     name = ''search-stories'' \<or> name = ''create-story'' \<or> name = ''create-objective'' \<or>
     name = ''create-epic''"
  by (simp add: required_fields_def handle_list_tools_def split: if_splits)

lemma dict_item_Some: "map_of a k = Some v \<Longrightarrow> dict_item a k = Inr v"
  by (simp add: dict_item_def)

lemma dict_item_None: "map_of a k = None \<Longrightarrow> dict_item a k = Inl (KeyError k)"
  by (simp add: dict_item_def)

lemma handle_call_tool_Some:
  "a \<noteq> [] \<Longrightarrow> handle_call_tool e rp name (Some a) =
     (case fst (call_tool_body e rp name a) of
        Inl (HTTPError msg) \<Rightarrow>
          (Inr [TextContent (''API request failed: '' @ msg)], snd (call_tool_body e rp name a))
      | _ \<Rightarrow> call_tool_body e rp name a)"
  by (cases "call_tool_body e rp name a")
     (simp add: handle_call_tool_def split: sum.split error.split)

lemma handle_call_tool_no_arguments:
  "no_arguments arguments \<Longrightarrow>
     handle_call_tool e rp name arguments = (Inl (ValueError ''Missing arguments''), [])"
  by (simp add: handle_call_tool_def no_arguments_def split: option.splits)

lemma no_http_error_escapes:
  "fst (handle_call_tool e rp name arguments) \<noteq> Inl (HTTPError msg)"
proof (cases "no_arguments arguments")
  case True
  then show ?thesis by (simp add: handle_call_tool_no_arguments)
next
  case False
  then obtain a where a: "arguments = Some a" "a \<noteq> []"
    by (auto simp add: no_arguments_def split: option.splits)
  show ?thesis
    unfolding a(1) handle_call_tool_Some [OF a(2)]
    by (cases "call_tool_body e rp name a") (auto split: sum.split error.split)
qed

lemma other_errors_escape:
  "a \<noteq> [] \<Longrightarrow> call_tool_body e rp name a = (Inl err, sent) \<Longrightarrow>
   (\<forall>m. err \<noteq> HTTPError m) \<Longrightarrow> handle_call_tool e rp name (Some a) = (Inl err, sent)"
  by (cases err) (simp_all add: handle_call_tool_Some)

lemma send_all_fail: "\<forall>req. remote e req = HTTPFailure msg \<Longrightarrow> send e r = Inl (HTTPError msg)"
  by (simp add: send_def)

lemma body_http_failure:
  assumes tok: "\<not> token_missing e"
    and down: "\<forall>req. remote e req = HTTPFailure msg"
    and known: "name \<in> set catalog_names"
    and req: "\<forall>f\<in>set (required_fields name). map_of a f \<noteq> None"
  shows "\<exists>r. call_tool_body e rp name a = (Inl (HTTPError msg), [r])"
proof -
  note s = send_all_fail [OF down]
  from known have
      "name = ''search-stories'' \<or> name = ''create-story'' \<or> name = ''list-projects'' \<or>
       name = ''list-workflows'' \<or> name = ''list-objectives'' \<or> name = ''create-objective'' \<or>
       name = ''list-epics'' \<or> name = ''create-epic''"
    by (simp add: catalog_names_eq)
  then show ?thesis
  proof (elim disjE)
    assume n1: "name = ''search-stories''"
    then show ?thesis
      by (simp add: call_tool_body_def search_stories_def get_request tok s)
  next
    assume n2: "name = ''create-story''"
    with req obtain v1 v2 v3 v4 where
      "map_of a ''name'' = Some v1" "map_of a ''description'' = Some v2"
      "map_of a ''story_type'' = Some v3" "map_of a ''project_id'' = Some v4"
      by (auto simp add: required_fields_eq)
    with n2 show ?thesis
      by (simp add: call_tool_body_def create_story_def dict_item_Some post_request tok s)
  next
    assume n3: "name = ''list-projects''"
    then show ?thesis
      by (simp add: call_tool_body_def list_projects_def get_request tok s)
  next
    assume n4: "name = ''list-workflows''"
    then show ?thesis
      by (simp add: call_tool_body_def list_workflows_def get_request tok s)
  next
    assume n5: "name = ''list-objectives''"
    then show ?thesis
      by (simp add: call_tool_body_def list_objectives_def get_request tok s)
  next
    assume n6: "name = ''create-objective''"
    with req obtain v1 v2 v3 where
      "map_of a ''name'' = Some v1" "map_of a ''description'' = Some v2"
      "map_of a ''status'' = Some v3"
      by (auto simp add: required_fields_eq)
    with n6 show ?thesis
      by (simp add: call_tool_body_def create_objective_def dict_item_Some post_request tok s)
  next
    assume n7: "name = ''list-epics''"
    then show ?thesis
      by (simp add: call_tool_body_def list_epics_def get_request tok s)
  next
    assume n8: "name = ''create-epic''"
    with req obtain v1 v2 where
      "map_of a ''name'' = Some v1" "map_of a ''description'' = Some v2"
      by (auto simp add: required_fields_eq)
    with n8 show ?thesis
      by (simp add: call_tool_body_def create_epic_def dict_item_Some post_request tok s)
  qed
qed

lemma handle_call_tool_result:
  "a \<noteq> [] \<Longrightarrow> call_tool_body e rp name a = (Inr blocks, sent) \<Longrightarrow>
     handle_call_tool e rp name (Some a) = (Inr blocks, sent)"
  by (simp add: handle_call_tool_Some)

lemma handle_call_tool_sent:
  "a \<noteq> [] \<Longrightarrow> snd (handle_call_tool e rp name (Some a)) = snd (call_tool_body e rp name a)"
  by (cases "call_tool_body e rp name a")
     (simp add: handle_call_tool_Some split: sum.splits error.splits)

section \<open>The error boundary of the dispatcher\<close>

text \<open>
  C1, as the code has it: the dispatcher catches \<open>httpx.HTTPError\<close> and nothing else.
  No \<open>HTTPError\<close> ever leaves \<open>handle_call_tool\<close>; when the remote fails every request,
  every tool of the catalog that is given its required fields returns the single block
  "API request failed: " followed by the message, after one request; and any other
  exception raised in the body (the \<open>ValueError\<close> of the policy and credential checks,
  the \<open>KeyError\<close> of a formatter) leaves \<open>handle_call_tool\<close> as raised.
\<close>

theorem http_error_boundary:
  "(\<forall>m. fst (handle_call_tool e rp name arguments) \<noteq> Inl (HTTPError m)) \<and>
   (\<not> token_missing e \<longrightarrow> (\<forall>req. remote e req = HTTPFailure msg) \<longrightarrow>
    name \<in> set catalog_names \<longrightarrow> a \<noteq> [] \<longrightarrow>
    (\<forall>f\<in>set (required_fields name). map_of a f \<noteq> None) \<longrightarrow>
      fst (handle_call_tool e rp name (Some a)) =
        Inr [TextContent (''API request failed: '' @ msg)] \<and>
      length (snd (handle_call_tool e rp name (Some a))) = 1) \<and>
   (\<forall>err sent. a \<noteq> [] \<longrightarrow> call_tool_body e rp name a = (Inl err, sent) \<longrightarrow>
      (\<forall>m. err \<noteq> HTTPError m) \<longrightarrow> handle_call_tool e rp name (Some a) = (Inl err, sent))"
proof (intro conjI allI impI)
  fix m show "fst (handle_call_tool e rp name arguments) \<noteq> Inl (HTTPError m)"
    by (rule no_http_error_escapes)
next
  assume h: "\<not> token_missing e" "\<forall>req. remote e req = HTTPFailure msg"
    "name \<in> set catalog_names" "a \<noteq> []" "\<forall>f\<in>set (required_fields name). map_of a f \<noteq> None"
  from body_http_failure [OF h(1,2,3,5)] obtain r where
    "call_tool_body e rp name a = (Inl (HTTPError msg), [r])" by blast
  then show "fst (handle_call_tool e rp name (Some a)) =
        Inr [TextContent (''API request failed: '' @ msg)]"
    and "length (snd (handle_call_tool e rp name (Some a))) = 1"
    by (simp_all add: handle_call_tool_Some [OF h(4)])
next
  fix err sent
  assume "a \<noteq> []" "call_tool_body e rp name a = (Inl err, sent)" "\<forall>m. err \<noteq> HTTPError m"
  then show "handle_call_tool e rp name (Some a) = (Inl err, sent)"
    by (rule other_errors_escape)
qed

theorem http_error_boundary_witness:
  "\<not> token_missing (fixture (HTTPFailure ''422 Unprocessable Entity'')) \<and>
   ''create-story'' \<in> set catalog_names \<and>
   fst (handle_call_tool (fixture (HTTPFailure ''422 Unprocessable Entity'')) no_repr
          ''create-story''
          (Some [(''name'', JStr ''A''), (''description'', JStr ''B''),
                 (''story_type'', JStr ''bug''), (''project_id'', JInt 7)])) =
     Inr [TextContent ''API request failed: 422 Unprocessable Entity''] \<and>
   call_tool_body (unconfigured (Success (JList []))) no_repr ''list-projects''
     [(''x'', JInt 1)] = (Inl token_not_set, []) \<and>
   handle_call_tool (unconfigured (Success (JList []))) no_repr ''list-projects''
     (Some [(''x'', JInt 1)]) = (Inl token_not_set, [])"
proof -
  let ?e = "fixture (HTTPFailure ''422 Unprocessable Entity'')"
  let ?a = "[(''name'', JStr ''A''), (''description'', JStr ''B''),
             (''story_type'', JStr ''bug''), (''project_id'', JInt 7)]"
  have h1: "\<not> token_missing ?e"
    by (simp add: fixture_def token_missing_def)
  have h2: "\<forall>req. remote ?e req = HTTPFailure ''422 Unprocessable Entity''"
    by (simp add: fixture_def)
  have h3: "''create-story'' \<in> set catalog_names"
    by (simp add: catalog_names_eq)
  have h4: "\<forall>f\<in>set (required_fields ''create-story''). map_of ?a f \<noteq> None"
    by (simp add: required_fields_eq)
  have h5: "call_tool_body (unconfigured (Success (JList []))) no_repr ''list-projects''
     [(''x'', JInt 1)] = (Inl token_not_set, [])"
    by (simp add: call_tool_body_def list_projects_def get_request unconfigured_def
        token_missing_def)
  have h6: "\<forall>m. token_not_set \<noteq> HTTPError m"
    by (simp add: token_not_set_def)
  from http_error_boundary [of ?e no_repr "''create-story''" None
      "''422 Unprocessable Entity''" ?a] h1 h2 h3 h4
  have c1: "fst (handle_call_tool ?e no_repr ''create-story'' (Some ?a)) =
     Inr [TextContent ''API request failed: 422 Unprocessable Entity'']"
    by simp
  from http_error_boundary [of "unconfigured (Success (JList []))" no_repr "''list-projects''"
      None "[]" "[(''x'', JInt 1)]"] h5 h6
  have c2: "handle_call_tool (unconfigured (Success (JList []))) no_repr ''list-projects''
     (Some [(''x'', JInt 1)]) = (Inl token_not_set, [])"
    by simp
  from h1 h3 c1 h5 c2 show ?thesis by simp
qed

text \<open>
  C1 as stated fails: without a credential \<open>list-projects\<close> raises the \<open>ValueError\<close> of
  the credential check, and on a project record without \<open>id\<close> it raises \<open>KeyError\<close>;
  neither is turned into a text block.
\<close>

theorem configuration_error_escapes:
  "handle_call_tool (unconfigured (Success (JList []))) no_repr ''list-projects''
     (Some [(''x'', JInt 1)]) =
     (Inl (ValueError ''SHORTCUT_API_TOKEN environment variable not set''), []) \<and>
   fst (handle_call_tool (fixture (Success (JList [JDict []]))) no_repr ''list-projects''
     (Some [(''x'', JInt 1)])) = Inl (KeyError ''id'')"
  by (simp add: handle_call_tool_def call_tool_body_def list_projects_def get_request
      unconfigured_def fixture_def token_missing_def token_not_set_def send_def
      format_project_def dict_item_def bind_r_def)

section \<open>Rejected arguments and unknown tools\<close>

lemma handle_rejects_iff:
  "a \<noteq> [] \<Longrightarrow>
     (\<exists>err. handle_call_tool e rp name (Some a) = (Inl err, []) \<and> input_error err) =
     (\<exists>err. call_tool_body e rp name a = (Inl err, []) \<and> input_error err)"
  by (cases "call_tool_body e rp name a")
     (auto simp add: handle_call_tool_Some input_error_def split: sum.splits error.splits)

lemma create_story_rejects:
  "(\<exists>err. create_story e rp a = (Inl err, []) \<and> input_error err) =
   list_ex (\<lambda>f. map_of a f = None) (required_fields ''create-story'')"
  by (auto simp add: create_story_def required_fields_eq dict_item_def post_request
      input_error_def token_not_set_def bind_io_sent split: option.splits)

lemma create_objective_rejects:
  "(\<exists>err. create_objective e rp a = (Inl err, []) \<and> input_error err) =
   list_ex (\<lambda>f. map_of a f = None) (required_fields ''create-objective'')"
  by (auto simp add: create_objective_def required_fields_eq dict_item_def post_request
      input_error_def token_not_set_def bind_io_sent split: option.splits)

lemma create_epic_rejects:
  "(\<exists>err. create_epic e rp a = (Inl err, []) \<and> input_error err) =
   list_ex (\<lambda>f. map_of a f = None) (required_fields ''create-epic'')"
  by (auto simp add: create_epic_def required_fields_eq dict_item_def post_request
      input_error_def token_not_set_def bind_io_sent split: option.splits)

lemma create_body_rejects:
  assumes "name = ''create-story'' \<or> name = ''create-objective'' \<or> name = ''create-epic''"
  shows "(\<exists>err. call_tool_body e rp name a = (Inl err, []) \<and> input_error err) =
         list_ex (\<lambda>f. map_of a f = None) (required_fields name)"
  using assms
proof (elim disjE)
  assume "name = ''create-story''"
  then show ?thesis
    using create_story_rejects [of e rp a] by (simp add: call_tool_body_def)
next
  assume "name = ''create-objective''"
  then show ?thesis
    using create_objective_rejects [of e rp a] by (simp add: call_tool_body_def)
next
  assume "name = ''create-epic''"
  then show ?thesis
    using create_epic_rejects [of e rp a] by (simp add: call_tool_body_def)
qed

text \<open>
  C4, as the code has it: for a tool with a required field, absent or empty arguments
  raise \<open>ValueError("Missing arguments")\<close> before any request; and for the three create
  tools the call is rejected before any request (by that error or by the \<open>KeyError\<close> of a
  strict lookup) exactly when the arguments are absent or empty or a required field is
  missing. Values are not compared with the enumerated choices.
\<close>

theorem rejected_arguments:
  assumes "required_fields name \<noteq> []"
  shows "(no_arguments arguments \<longrightarrow>
            handle_call_tool e rp name arguments = (Inl (ValueError ''Missing arguments''), [])) \<and>
         (name \<noteq> ''search-stories'' \<longrightarrow>
            (\<exists>err. handle_call_tool e rp name arguments = (Inl err, []) \<and> input_error err) =
            (case arguments of
               None \<Rightarrow> True
             | Some a \<Rightarrow> a = [] \<or> list_ex (\<lambda>f. map_of a f = None) (required_fields name)))"
proof (intro conjI impI)
  assume "no_arguments arguments"
  then show "handle_call_tool e rp name arguments = (Inl (ValueError ''Missing arguments''), [])"
    by (rule handle_call_tool_no_arguments)
next
  assume "name \<noteq> ''search-stories''"
  with required_nonempty_cases [OF assms]
  have c: "name = ''create-story'' \<or> name = ''create-objective'' \<or> name = ''create-epic''"
    by simp
  show "(\<exists>err. handle_call_tool e rp name arguments = (Inl err, []) \<and> input_error err) =
        (case arguments of
           None \<Rightarrow> True
         | Some a \<Rightarrow> a = [] \<or> list_ex (\<lambda>f. map_of a f = None) (required_fields name))"
  proof (cases "no_arguments arguments")
    case True
    then have "handle_call_tool e rp name arguments = (Inl (ValueError ''Missing arguments''), [])"
      by (rule handle_call_tool_no_arguments)
    moreover have "input_error (ValueError ''Missing arguments'')"
      by (simp add: input_error_def)
    ultimately have "\<exists>err. handle_call_tool e rp name arguments = (Inl err, []) \<and> input_error err"
      by simp
    with True show ?thesis
      by (simp add: no_arguments_def split: option.splits)
  next
    case False
    then obtain a where a: "arguments = Some a" "a \<noteq> []"
      by (auto simp add: no_arguments_def split: option.splits)
    show ?thesis
      unfolding a(1) handle_rejects_iff [OF a(2)] create_body_rejects [OF c]
      using a(2) by simp
  qed
qed

theorem rejected_arguments_witness:
  "required_fields ''create-epic'' \<noteq> [] \<and>
   no_arguments (Some []) \<and>
   handle_call_tool (fixture (Success JNull)) no_repr ''create-epic'' (Some []) =
     (Inl (ValueError ''Missing arguments''), []) \<and>
   (\<exists>err. handle_call_tool (fixture (Success JNull)) no_repr ''create-epic''
            (Some [(''name'', JStr ''E'')]) = (Inl err, []) \<and> input_error err)"
proof -
  have h: "required_fields ''create-epic'' \<noteq> []"
    by (simp add: required_fields_eq)
  have n: "no_arguments (Some [])"
    by (simp add: no_arguments_def)
  from rejected_arguments [OF h, of "Some []" "fixture (Success JNull)" no_repr] n
  have c1: "handle_call_tool (fixture (Success JNull)) no_repr ''create-epic'' (Some []) =
     (Inl (ValueError ''Missing arguments''), [])"
    by simp
  from rejected_arguments [OF h, of "Some [(''name'', JStr ''E'')]" "fixture (Success JNull)"
      no_repr]
  have c2: "\<exists>err. handle_call_tool (fixture (Success JNull)) no_repr ''create-epic''
            (Some [(''name'', JStr ''E'')]) = (Inl err, []) \<and> input_error err"
    by (simp add: required_fields_eq)
  from h n c1 c2 show ?thesis by simp
qed

text \<open>
  C4 as stated fails: \<open>create-story\<close> with a story type outside the declared choices is
  invalid input by the catalog, and the handler posts it and reports the new story.
\<close>

theorem enum_not_checked:
  "claimed_invalid_input ''create-story''
     (Some [(''name'', JStr ''A''), (''description'', JStr ''B''),
            (''story_type'', JStr ''banana''), (''project_id'', JInt 7)]) \<and>
   fst (handle_call_tool
          (fixture (Success (JDict [(''id'', JInt 123), (''name'', JStr ''A'')]))) no_repr
          ''create-story''
          (Some [(''name'', JStr ''A''), (''description'', JStr ''B''),
                 (''story_type'', JStr ''banana''), (''project_id'', JInt 7)])) =
     Inr [TextContent (''Created new story:'' @ nl @ nl @
            ''Story 123: A'' @ nl @ ''Status: Unknown'' @ nl @ ''Type: Unknown'' @ nl @
            ''Description: No description'' @ nl @ ''URL: '' @ nl @ ''---'')]"
  by (simp add: claimed_invalid_input_def required_fields_eq enum_choices_def
      handle_list_tools_def handle_call_tool_def call_tool_body_def create_story_def
      dict_item_def post_request fixture_def token_missing_def send_def format_story_def
      bind_r_def str_int_def lift_def)

text \<open>
  C5, as the code has it: \<open>create-epic\<close> with a name and no description raises
  \<open>KeyError('description')\<close>, which leaves \<open>handle_call_tool\<close> as raised (no text block is
  returned), and no request is made.
\<close>

theorem create_epic_missing_description:
  "map_of a ''name'' = Some v \<Longrightarrow> map_of a ''description'' = None \<Longrightarrow>
     handle_call_tool e rp ''create-epic'' (Some a) = (Inl (KeyError ''description''), [])"
  by (auto simp add: handle_call_tool_def call_tool_body_def create_epic_def
      dict_item_Some dict_item_None)

theorem create_epic_missing_description_witness:
  "map_of [(''name'', JStr ''E'')] ''name'' = Some (JStr ''E'') \<and>
   map_of [(''name'', JStr ''E'')] ''description'' = None \<and>
   handle_call_tool (unconfigured (HTTPFailure ''down'')) no_repr ''create-epic''
     (Some [(''name'', JStr ''E'')]) = (Inl (KeyError ''description''), [])"
  using create_epic_missing_description [of "[(''name'', JStr ''E'')]" "JStr ''E''"
      "unconfigured (HTTPFailure ''down'')" no_repr]
  by simp

text \<open>
  C5 as stated fails: the call with \<open>{name: "E"}\<close> does not return an error text block;
  it raises.
\<close>

theorem create_epic_no_text_block:
  "handle_call_tool (fixture (Success JNull)) no_repr ''create-epic''
     (Some [(''name'', JStr ''E'')]) = (Inl (KeyError ''description''), [])"
  by (simp add: handle_call_tool_def call_tool_body_def create_epic_def dict_item_def)

text \<open>
  C6, as the code has it: for a name outside the catalog, non-empty arguments raise
  \<open>ValueError("Unknown tool: " + name)\<close> and absent or empty arguments raise
  \<open>ValueError("Missing arguments")\<close>; no request is made in either case.
\<close>

theorem unknown_tool:
  "name \<notin> set catalog_names \<Longrightarrow>
     handle_call_tool e rp name arguments =
       (if no_arguments arguments then (Inl (ValueError ''Missing arguments''), [])
        else (Inl (ValueError (''Unknown tool: '' @ name)), []))"
  by (simp add: catalog_names_eq handle_call_tool_def call_tool_body_def no_arguments_def
      split: option.split)

theorem unknown_tool_witness:
  "''unknown-tool'' \<notin> set catalog_names \<and>
   handle_call_tool (fixture (Success JNull)) no_repr ''unknown-tool'' (Some [(''a'', JInt 1)]) =
     (Inl (ValueError ''Unknown tool: unknown-tool''), []) \<and>
   handle_call_tool (fixture (Success JNull)) no_repr ''unknown-tool'' None =
     (Inl (ValueError ''Missing arguments''), [])"
  using unknown_tool [of "''unknown-tool''" "fixture (Success JNull)" no_repr "Some [(''a'', JInt 1)]"]
        unknown_tool [of "''unknown-tool''" "fixture (Success JNull)" no_repr None]
  by (simp add: catalog_names_eq no_arguments_def)

text \<open>
  C6 as stated fails at its own example: with the empty argument map the unknown name
  is never looked at.
\<close>

theorem unknown_tool_empty_arguments:
  "handle_call_tool (fixture (Success JNull)) no_repr ''unknown-tool'' (Some []) =
     (Inl (ValueError ''Missing arguments''), []) \<and>
   fst (handle_call_tool (fixture (Success JNull)) no_repr ''unknown-tool'' (Some [])) \<noteq>
     Inl (ValueError ''Unknown tool: unknown-tool'')"
  by (simp add: handle_call_tool_def)

section \<open>Empty results\<close>

text \<open>
  The three branches that test for an empty result answer with their own message; the
  search example of the specification is the first.
\<close>

lemma no_results_messages:
  "fst (handle_call_tool (fixture (Success (JDict [(''data'', JList [])]))) rp ''search-stories''
          (Some [(''query'', JStr ''login bug'')])) =
     Inr [TextContent ''No stories found matching query: login bug'']"
  "fst (handle_call_tool (fixture (Success (JList []))) rp ''list-objectives''
          (Some [(''x'', JInt 1)])) = Inr [TextContent ''No objectives found'']"
  "fst (handle_call_tool (fixture (Success (JList []))) rp ''list-epics''
          (Some [(''x'', JInt 1)])) = Inr [TextContent ''No epics found'']"
  by (simp_all add: handle_call_tool_def call_tool_body_def search_stories_def
      list_objectives_def list_epics_def Let_def get_request fixture_def token_missing_def
      send_def lift_def dict_get_def)

text \<open>
  C7 at the inputs where the code departs from it: on an empty list \<open>list-projects\<close> and
  \<open>list-workflows\<close> return the bare header, with no "no results" message.
\<close>

theorem empty_projects_header_only:
  "handle_call_tool (fixture (Success (JList []))) no_repr ''list-projects''
     (Some [(''x'', JInt 1)]) =
     (Inr [TextContent (''Available projects:'' @ nl @ nl)],
      [build_request (fixture (Success (JList []))) ''GET'' ''projects'' None None]) \<and>
   handle_call_tool (fixture (Success (JList []))) no_repr ''list-workflows''
     (Some [(''x'', JInt 1)]) =
     (Inr [TextContent (''Available workflows and states:'' @ nl @ nl)],
      [build_request (fixture (Success (JList []))) ''GET'' ''workflows'' None None])"
  by (simp add: handle_call_tool_def call_tool_body_def list_projects_def list_workflows_def
      get_request fixture_def token_missing_def send_def lift_def)

section \<open>Listing and truncation\<close>

lemma map_result_Inr_iff:
  "(map_result f xs = Inr ys) = list_all2 (\<lambda>x y. f x = Inr y) xs ys"
proof (induction xs arbitrary: ys)
  case Nil
  then show ?case by auto
next
  case (Cons x xs)
  show ?case
  proof (cases "f x")
    case (Inl err)
    then show ?thesis by (auto simp add: list_all2_Cons1)
  next
    case (Inr y)
    then show ?thesis
      using Cons.IH by (cases "map_result f xs") (auto simp add: list_all2_Cons1)
  qed
qed

lemma map_result_length: "map_result f xs = Inr ys \<Longrightarrow> length ys = length xs"
  by (simp add: map_result_Inr_iff list_all2_lengthD)

lemma format_story_record: "format_story rp (story_record i) = Inr (story_block i)"
  by (simp add: format_story_def story_record_def story_block_def bind_r_def dict_item_def)

lemma format_epic_record: "format_epic rp (epic_record i) = Inr epic_block"
  by (simp add: format_epic_def epic_record_def epic_block_def bind_r_def dict_item_def)

lemma search_stories_found:
  assumes "\<not> token_missing e"
    and "remote e (build_request e ''GET'' ''search/stories'' None
           (Some [(''query'', dict_get a ''query'')])) = Success (JDict d)"
    and "map_of d ''data'' = Some (JList stories)"
    and "map_result (format_story rp) (take 10 stories) = Inr blocks"
  shows "search_stories e rp a =
     (Inr [TextContent
        (if stories = [] then ''No stories found matching query: '' @ py_str rp (dict_get a ''query'')
         else ''Found stories:'' @ nl @ nl @ join nl blocks)],
      [build_request e ''GET'' ''search/stories'' None (Some [(''query'', dict_get a ''query'')])])"
  using assms
  by (simp add: search_stories_def Let_def get_request send_def lift_def)

lemma list_projects_all:
  assumes "\<not> token_missing e"
    and "remote e (build_request e ''GET'' ''projects'' None None) = Success (JList records)"
    and "map_result (format_project rp) records = Inr blocks"
  shows "list_projects e rp a =
     (Inr [TextContent (''Available projects:'' @ nl @ nl @ join nl blocks)],
      [build_request e ''GET'' ''projects'' None None])"
  using assms
  by (simp add: list_projects_def get_request send_def lift_def)

lemma list_workflows_all:
  assumes "\<not> token_missing e"
    and "remote e (build_request e ''GET'' ''workflows'' None None) = Success (JList records)"
    and "map_result (format_workflow rp) records = Inr blocks"
  shows "list_workflows e rp a =
     (Inr [TextContent (''Available workflows and states:'' @ nl @ nl @ join nl blocks)],
      [build_request e ''GET'' ''workflows'' None None])"
  using assms
  by (simp add: list_workflows_def get_request send_def lift_def)

lemma list_objectives_all:
  assumes "\<not> token_missing e"
    and "remote e (build_request e ''GET'' ''objectives'' None (Some (status_params a))) =
           Success (JList records)"
    and "map_result (format_objective rp) records = Inr blocks"
  shows "list_objectives e rp a =
     (Inr [TextContent
        (if records = [] then ''No objectives found''
         else ''Objectives:'' @ nl @ nl @ join nl blocks)],
      [build_request e ''GET'' ''objectives'' None (Some (status_params a))])"
  using assms
  by (simp add: list_objectives_def get_request send_def lift_def)

lemma list_epics_all:
  assumes "\<not> token_missing e"
    and "remote e (build_request e ''GET'' ''epics'' None (Some (status_params a))) =
           Success (JList records)"
    and "map_result (format_epic rp) records = Inr blocks"
  shows "list_epics e rp a =
     (Inr [TextContent
        (if records = [] then ''No epics found''
         else ''Epics:'' @ nl @ nl @ join nl blocks)],
      [build_request e ''GET'' ''epics'' None (Some (status_params a))])"
  using assms
  by (simp add: list_epics_def get_request send_def lift_def)

text \<open>Lines and separator counts of texts that are put together with line breaks.\<close>

lemma split_lines_not_Nil: "split_lines s \<noteq> []"
  by (induction s) (auto split: list.splits)

lemma split_lines_append_nl: "split_lines (a @ nl @ b) = split_lines a @ split_lines b"
proof (induction a)
  case Nil
  then show ?case by (simp add: nl_def)
next
  case (Cons c a)
  then show ?case
    using split_lines_not_Nil [of a]
    by (cases "split_lines a") (auto simp add: nl_def)
qed

lemma split_lines_single: "single_line s \<Longrightarrow> split_lines s = [s]"
  by (induction s) (auto simp add: single_line_def)

lemma count_blocks_nl: "count_blocks (a @ nl @ b) = count_blocks a + count_blocks b"
  by (simp add: count_blocks_def split_lines_append_nl)

lemma count_blocks_single:
  "single_line s \<Longrightarrow> count_blocks s = (if s = ''---'' then 1 else 0)"
  by (simp add: count_blocks_def split_lines_single)

lemma count_blocks_empty: "count_blocks [] = 0"
  by (simp add: count_blocks_def)

lemma count_blocks_nl_first: "count_blocks (nl @ b) = count_blocks b"
  using count_blocks_nl [of "[]" b] by (simp add: count_blocks_empty)

lemma count_blocks_join: "count_blocks (join nl bs) = sum_list (map count_blocks bs)"
proof (induction bs rule: induct_list012)
  case 1
  then show ?case by (simp add: count_blocks_empty)
next
  case (2 x)
  then show ?case by simp
next
  case (3 x y zs)
  then show ?case by (simp add: count_blocks_nl)
qed

lemma join_Cons: "join sep (b # rest) = b @ concat (map (\<lambda>x. sep @ x) rest)"
  by (induction rest arbitrary: b) simp_all

lemma blocks_text_join: "header @ nl @ nl @ join nl blocks = blocks_text header blocks"
  by (cases blocks) (simp_all add: blocks_text_def join_Cons nl_def)

lemma count_blocks_text:
  "single_line header \<Longrightarrow> header \<noteq> ''---'' \<Longrightarrow>
     count_blocks (blocks_text header blocks) = sum_list (map count_blocks blocks)"
  unfolding blocks_text_join [symmetric]
  by (simp add: count_blocks_nl count_blocks_nl_first count_blocks_join count_blocks_single)

text \<open>Each formatter turns a plain record into a text with exactly one separator line.\<close>

lemma bind_r_Inr: "(bind_r m f = Inr y) = (\<exists>v. m = Inr v \<and> f v = Inr y)"
  by (cases m) (simp_all add: bind_r_def)

lemma single_line_append: "single_line (a @ b) = (single_line a \<and> single_line b)"
  by (auto simp add: single_line_def)

lemma single_line_Nil: "single_line []"
  by (simp add: single_line_def)

lemma single_line_Cons: "single_line (c # s) = (c \<noteq> CHR 0x0A \<and> single_line s)"
  by (auto simp add: single_line_def)

lemma plain_dict_lookup:
  "plain_dict rp d \<Longrightarrow> map_of d k = Some v \<Longrightarrow> single_line (py_str rp v)"
  by (fastforce simp add: plain_dict_def list_all_iff dest: map_of_SomeD)

lemma subscript_plain:
  "subscript rcd k = Inr v \<Longrightarrow> plain_record rp rcd \<Longrightarrow> single_line (py_str rp v)"
  by (cases rcd)
     (auto simp add: dict_item_def plain_dict_lookup split: option.splits)

lemma get_default_plain:
  "get_default rcd k dflt = Inr v \<Longrightarrow> plain_record rp rcd \<Longrightarrow>
   single_line (py_str rp dflt) \<Longrightarrow> single_line (py_str rp v)"
  by (cases rcd) (auto simp add: plain_dict_lookup split: option.splits)

lemma get_default_inner:
  "get_default rcd k dflt = Inr v \<Longrightarrow> plain_record rp rcd \<Longrightarrow>
   plain_inner rp dflt \<Longrightarrow> plain_inner rp v"
  by (cases rcd)
     (fastforce simp add: list_all_iff split: option.splits dest: map_of_SomeD)+

lemma get_default_nested:
  assumes "get_default rcd k (JDict []) = Inr inner" and "plain_record rp rcd"
    and "get_default inner k' dflt = Inr v" and "single_line (py_str rp dflt)"
  shows "single_line (py_str rp v)"
proof -
  have "plain_inner rp inner"
    using get_default_inner [OF assms(1,2)] by (simp add: plain_dict_def)
  with assms(3,4) show ?thesis
    by (cases inner) (auto simp add: plain_dict_lookup split: option.splits)
qed

lemma format_story_count:
  assumes f: "format_story rp story = Inr b" and p: "plain_record rp story"
  shows "count_blocks b = 1"
proof -
  from f obtain v1 v2 ws v3 v4 v5 v6 where
    g: "subscript story ''id'' = Inr v1" "subscript story ''name'' = Inr v2"
       "get_default story ''workflow_state'' (JDict []) = Inr ws"
       "get_default ws ''name'' (JStr ''Unknown'') = Inr v3"
       "get_default story ''story_type'' (JStr ''Unknown'') = Inr v4"
       "get_default story ''description'' (JStr ''No description'') = Inr v5"
       "get_default story ''app_url'' (JStr []) = Inr v6"
    and b: "b = join nl
       [''Story '' @ py_str rp v1 @ '': '' @ py_str rp v2,
        ''Status: '' @ py_str rp v3,
        ''Type: '' @ py_str rp v4,
        ''Description: '' @ py_str rp v5,
        ''URL: '' @ py_str rp v6,
        ''---'']"
    by (auto simp add: format_story_def bind_r_Inr)
  have s: "single_line (py_str rp v1)" "single_line (py_str rp v2)" "single_line (py_str rp v3)"
    "single_line (py_str rp v4)" "single_line (py_str rp v5)" "single_line (py_str rp v6)"
    using g p
    by (auto simp add: single_line_Nil single_line_Cons
        intro: subscript_plain get_default_plain get_default_nested)
  show ?thesis
    unfolding b count_blocks_join
    using s by (simp add: count_blocks_single single_line_append single_line_Nil single_line_Cons)
qed

lemma format_project_count:
  assumes f: "format_project rp project = Inr b" and p: "plain_record rp project"
  shows "count_blocks b = 1"
proof -
  from f obtain v1 v2 v3 where
    g: "subscript project ''id'' = Inr v1" "subscript project ''name'' = Inr v2"
       "get_default project ''description'' (JStr ''No description'') = Inr v3"
    and b: "b = join nl
       [''Project ID: '' @ py_str rp v1,
        ''Name: '' @ py_str rp v2,
        ''Description: '' @ py_str rp v3,
        ''---'']"
    by (auto simp add: format_project_def bind_r_Inr)
  have s: "single_line (py_str rp v1)" "single_line (py_str rp v2)" "single_line (py_str rp v3)"
    using g p
    by (auto simp add: single_line_Nil single_line_Cons intro: subscript_plain get_default_plain)
  show ?thesis
    unfolding b count_blocks_join
    using s by (simp add: count_blocks_single single_line_append single_line_Nil single_line_Cons)
qed

lemma format_objective_count:
  assumes f: "format_objective rp objective = Inr b" and p: "plain_record rp objective"
  shows "count_blocks b = 1"
proof -
  from f obtain v1 v2 v3 v4 where
    g: "subscript objective ''name'' = Inr v1"
       "get_default objective ''status'' (JStr ''Unknown'') = Inr v2"
       "get_default objective ''description'' (JStr ''No description'') = Inr v3"
       "get_default objective ''app_url'' (JStr []) = Inr v4"
    and b: "b = join nl
       [''Objective: '' @ py_str rp v1,
        ''Status: '' @ py_str rp v2,
        ''Description: '' @ py_str rp v3,
        ''URL: '' @ py_str rp v4,
        ''---'']"
    by (auto simp add: format_objective_def bind_r_Inr)
  have s: "single_line (py_str rp v1)" "single_line (py_str rp v2)" "single_line (py_str rp v3)"
    "single_line (py_str rp v4)"
    using g p
    by (auto simp add: single_line_Nil single_line_Cons intro: subscript_plain get_default_plain)
  show ?thesis
    unfolding b count_blocks_join
    using s by (simp add: count_blocks_single single_line_append single_line_Nil single_line_Cons)
qed

lemma format_epic_count:
  assumes f: "format_epic rp epic = Inr b" and p: "plain_record rp epic"
  shows "count_blocks b = 1"
proof -
  from f obtain v1 v2 v3 ms v4 v5 where
    g: "subscript epic ''name'' = Inr v1"
       "get_default epic ''state'' (JStr ''Unknown'') = Inr v2"
       "get_default epic ''description'' (JStr ''No description'') = Inr v3"
       "get_default epic ''milestone'' (JDict []) = Inr ms"
       "get_default ms ''name'' (JStr ''None'') = Inr v4"
       "get_default epic ''app_url'' (JStr []) = Inr v5"
    and b: "b = join nl
       [''Epic: '' @ py_str rp v1,
        ''Status: '' @ py_str rp v2,
        ''Description: '' @ py_str rp v3,
        ''Milestone: '' @ py_str rp v4,
        ''URL: '' @ py_str rp v5,
        ''---'']"
    by (auto simp add: format_epic_def bind_r_Inr)
  have s: "single_line (py_str rp v1)" "single_line (py_str rp v2)" "single_line (py_str rp v3)"
    "single_line (py_str rp v4)" "single_line (py_str rp v5)"
    using g p
    by (auto simp add: single_line_Nil single_line_Cons
        intro: subscript_plain get_default_plain get_default_nested)
  show ?thesis
    unfolding b count_blocks_join
    using s by (simp add: count_blocks_single single_line_append single_line_Nil single_line_Cons)
qed

lemma format_state_count:
  assumes f: "format_state rp state = Inr line"
    and p: "case state of JDict w \<Rightarrow> plain_dict rp w | _ \<Rightarrow> True"
  shows "count_blocks line = 0"
proof -
  from f obtain w v1 v2 where
    w: "state = JDict w" and g: "map_of w ''name'' = Some v1" "map_of w ''id'' = Some v2"
    and b: "line = ''- '' @ py_str rp v1 @ '' (ID: '' @ py_str rp v2 @ '')''"
    by (cases state) (auto simp add: format_state_def bind_r_Inr dict_item_def split: option.splits)
  have s: "single_line (py_str rp v1)" "single_line (py_str rp v2)"
    using g p w by (auto intro: plain_dict_lookup)
  show ?thesis
    unfolding b
    using s by (simp add: count_blocks_single single_line_append single_line_Nil single_line_Cons)
qed

lemma states_count:
  "map_result (format_state rp) xs = Inr ls \<Longrightarrow>
   list_all (\<lambda>x. case x of JDict w \<Rightarrow> plain_dict rp w | _ \<Rightarrow> True) xs \<Longrightarrow>
   sum_list (map count_blocks ls) = 0"
proof (induction xs arbitrary: ls)
  case Nil
  then show ?case by simp
next
  case (Cons x xs)
  from Cons.prems(1) obtain l ls' where
    l: "format_state rp x = Inr l" and r: "map_result (format_state rp) xs = Inr ls'"
    and ls: "ls = l # ls'"
    by (auto split: sum.splits)
  from Cons.prems(2) have px: "case x of JDict w \<Rightarrow> plain_dict rp w | _ \<Rightarrow> True"
    and pxs: "list_all (\<lambda>x. case x of JDict w \<Rightarrow> plain_dict rp w | _ \<Rightarrow> True) xs"
    by simp_all
  from format_state_count [OF l px] Cons.IH [OF r pxs] ls show ?case by simp
qed

lemma py_iter_plain:
  "py_iter v = Inr xs \<Longrightarrow> plain_inner rp v \<Longrightarrow>
   list_all (\<lambda>x. case x of JDict w \<Rightarrow> plain_dict rp w | _ \<Rightarrow> True) xs"
  by (cases v) (auto simp add: list_all_iff)

lemma format_workflow_count:
  assumes f: "format_workflow rp workflow = Inr b" and p: "plain_record rp workflow"
  shows "count_blocks b = 1"
proof -
  from f obtain sv xs states v where
    g: "get_default workflow ''states'' (JList []) = Inr sv" "py_iter sv = Inr xs"
       "map_result (format_state rp) xs = Inr states" "subscript workflow ''name'' = Inr v"
    and b: "b = join nl [''Workflow: '' @ py_str rp v, ''States:'', join nl states, ''---'']"
    by (auto simp add: format_workflow_def bind_r_Inr)
  have "plain_inner rp sv"
    using get_default_inner [OF g(1) p] by simp
  from states_count [OF g(3) py_iter_plain [OF g(2) this]]
  have z: "sum_list (map count_blocks states) = 0" .
  have s: "single_line (py_str rp v)"
    using g(4) p by (rule subscript_plain)
  show ?thesis
    unfolding b count_blocks_join
    using s z by (simp add: count_blocks_join count_blocks_single single_line_append
        single_line_Nil single_line_Cons)
qed

lemma blocks_count:
  assumes "\<And>x b. f x = Inr b \<Longrightarrow> P x \<Longrightarrow> count_blocks b = 1"
    and "map_result f xs = Inr blocks" and "list_all P xs"
  shows "sum_list (map count_blocks blocks) = length xs"
  using assms(2,3)
proof (induction xs arbitrary: blocks)
  case Nil
  then show ?case by simp
next
  case (Cons x xs)
  from Cons.prems(1) obtain b bs where
    b: "f x = Inr b" and r: "map_result f xs = Inr bs" and e: "blocks = b # bs"
    by (auto split: sum.splits)
  from Cons.prems(2) have px: "P x" and pxs: "list_all P xs" by simp_all
  from assms(1) [OF b px] Cons.IH [OF r pxs] e show ?case by simp
qed

lemma listing_count:
  assumes one: "\<And>x b. f x = Inr b \<Longrightarrow> plain_record rp x \<Longrightarrow> count_blocks b = 1"
    and m: "map_result f xs = Inr blocks" and p: "list_all (plain_record rp) xs"
    and h: "single_line header" "header \<noteq> ''---''"
  shows "count_blocks (blocks_text header blocks) = length xs"
  using count_blocks_text [OF h, of blocks] blocks_count [of f "plain_record rp", OF one m p]
  by simp

lemma search_count:
  assumes m: "map_result (format_story rp) (take 10 stories) = Inr blocks"
    and p: "list_all (plain_record rp) (take 10 stories)"
    and q: "single_line query"
  shows "count_blocks
           (if stories = [] then ''No stories found matching query: '' @ query
            else blocks_text ''Found stories:'' blocks) = min (length stories) 10"
proof (cases "stories = []")
  case True
  with q show ?thesis
    by (simp add: count_blocks_single single_line_append single_line_Nil single_line_Cons)
next
  case False
  have "count_blocks (blocks_text ''Found stories:'' blocks) = length (take 10 stories)"
    by (rule listing_count [OF format_story_count m p])
       (simp_all add: single_line_Nil single_line_Cons)
  with False show ?thesis by (simp add: min.commute)
qed

lemma projects_count:
  assumes m: "map_result (format_project rp) records = Inr blocks"
    and p: "list_all (plain_record rp) records"
  shows "count_blocks (blocks_text ''Available projects:'' blocks) = length records"
  by (rule listing_count [OF format_project_count m p])
     (simp_all add: single_line_Nil single_line_Cons)

lemma workflows_count:
  assumes m: "map_result (format_workflow rp) records = Inr blocks"
    and p: "list_all (plain_record rp) records"
  shows "count_blocks (blocks_text ''Available workflows and states:'' blocks) = length records"
  by (rule listing_count [OF format_workflow_count m p])
     (simp_all add: single_line_Nil single_line_Cons)

lemma objectives_count:
  assumes m: "map_result (format_objective rp) records = Inr blocks"
    and p: "list_all (plain_record rp) records"
  shows "count_blocks
           (if records = [] then ''No objectives found''
            else blocks_text ''Objectives:'' blocks) = length records"
proof (cases "records = []")
  case True
  then show ?thesis
    by (simp add: count_blocks_single single_line_Nil single_line_Cons)
next
  case False
  have "count_blocks (blocks_text ''Objectives:'' blocks) = length records"
    by (rule listing_count [OF format_objective_count m p])
       (simp_all add: single_line_Nil single_line_Cons)
  with False show ?thesis by simp
qed

lemma epics_count:
  assumes m: "map_result (format_epic rp) records = Inr blocks"
    and p: "list_all (plain_record rp) records"
  shows "count_blocks
           (if records = [] then ''No epics found''
            else blocks_text ''Epics:'' blocks) = length records"
proof (cases "records = []")
  case True
  then show ?thesis
    by (simp add: count_blocks_single single_line_Nil single_line_Cons)
next
  case False
  have "count_blocks (blocks_text ''Epics:'' blocks) = length records"
    by (rule listing_count [OF format_epic_count m p])
       (simp_all add: single_line_Nil single_line_Cons)
  with False show ?thesis by simp
qed

text \<open>The text that each listing tool returns.\<close>

lemma search_stories_text:
  assumes "\<not> token_missing e" and "a \<noteq> []"
    and "remote e (build_request e ''GET'' ''search/stories'' None
           (Some [(''query'', dict_get a ''query'')])) = Success (JDict d)"
    and "map_of d ''data'' = Some (JList stories)"
    and "map_result (format_story rp) (take 10 stories) = Inr blocks"
  shows "fst (handle_call_tool e rp ''search-stories'' (Some a)) =
     Inr [TextContent
        (if stories = [] then ''No stories found matching query: '' @ py_str rp (dict_get a ''query'')
         else blocks_text ''Found stories:'' blocks)]"
  unfolding blocks_text_join [symmetric]
  using search_stories_found [OF assms(1,3,4,5)]
  by (simp add: handle_call_tool_result [OF assms(2)] call_tool_body_def)

lemma list_projects_text:
  assumes "\<not> token_missing e" and "a \<noteq> []"
    and "remote e (build_request e ''GET'' ''projects'' None None) = Success (JList records)"
    and "map_result (format_project rp) records = Inr blocks"
  shows "fst (handle_call_tool e rp ''list-projects'' (Some a)) =
     Inr [TextContent (blocks_text ''Available projects:'' blocks)]"
  unfolding blocks_text_join [symmetric]
  using list_projects_all [OF assms(1,3,4), of a]
  by (simp add: handle_call_tool_result [OF assms(2)] call_tool_body_def)

lemma list_workflows_text:
  assumes "\<not> token_missing e" and "a \<noteq> []"
    and "remote e (build_request e ''GET'' ''workflows'' None None) = Success (JList records)"
    and "map_result (format_workflow rp) records = Inr blocks"
  shows "fst (handle_call_tool e rp ''list-workflows'' (Some a)) =
     Inr [TextContent (blocks_text ''Available workflows and states:'' blocks)]"
  unfolding blocks_text_join [symmetric]
  using list_workflows_all [OF assms(1,3,4), of a]
  by (simp add: handle_call_tool_result [OF assms(2)] call_tool_body_def)

lemma list_objectives_text:
  assumes "\<not> token_missing e" and "a \<noteq> []"
    and "remote e (build_request e ''GET'' ''objectives'' None (Some (status_params a))) =
           Success (JList records)"
    and "map_result (format_objective rp) records = Inr blocks"
  shows "fst (handle_call_tool e rp ''list-objectives'' (Some a)) =
     Inr [TextContent
        (if records = [] then ''No objectives found'' else blocks_text ''Objectives:'' blocks)]"
  unfolding blocks_text_join [symmetric]
  using list_objectives_all [OF assms(1,3,4)]
  by (simp add: handle_call_tool_result [OF assms(2)] call_tool_body_def)

lemma list_epics_text:
  assumes "\<not> token_missing e" and "a \<noteq> []"
    and "remote e (build_request e ''GET'' ''epics'' None (Some (status_params a))) =
           Success (JList records)"
    and "map_result (format_epic rp) records = Inr blocks"
  shows "fst (handle_call_tool e rp ''list-epics'' (Some a)) =
     Inr [TextContent
        (if records = [] then ''No epics found'' else blocks_text ''Epics:'' blocks)]"
  unfolding blocks_text_join [symmetric]
  using list_epics_all [OF assms(1,3,4)]
  by (simp add: handle_call_tool_result [OF assms(2)] call_tool_body_def)

text \<open>
  C8: with a credential and non-empty arguments, when the remote returns n story records
  under \<open>data\<close> and the first ten can be formatted, \<open>search-stories\<close> returns one text:
  the header followed by the blocks of the first ten records in response order and of no
  other record (for n = 0 the "no stories" message). When these records are plain and the
  query is a single line, that text holds exactly min(n, 10) separator lines, that is
  min(n, 10) blocks. \<open>list-projects\<close>, \<open>list-workflows\<close>, \<open>list-objectives\<close> and
  \<open>list-epics\<close> return the header followed by the blocks of all records of the returned
  list in order, and for plain records the text holds exactly n blocks, whatever n is.
\<close>

theorem list_truncation:
  assumes tok: "\<not> token_missing e" and args: "a \<noteq> []"
  shows
    "(remote e (build_request e ''GET'' ''search/stories'' None
        (Some [(''query'', dict_get a ''query'')])) = Success (JDict d) \<and>
      map_of d ''data'' = Some (JList stories) \<and>
      map_result (format_story rp) (take 10 stories) = Inr blocks \<longrightarrow>
        (\<exists>text. fst (handle_call_tool e rp ''search-stories'' (Some a)) = Inr [TextContent text] \<and>
           text = (if stories = []
                   then ''No stories found matching query: '' @ py_str rp (dict_get a ''query'')
                   else blocks_text ''Found stories:'' blocks) \<and>
           (list_all (plain_record rp) (take 10 stories) \<and>
            single_line (py_str rp (dict_get a ''query'')) \<longrightarrow>
              count_blocks text = min (length stories) 10)) \<and>
        length blocks = min (length stories) 10 \<and>
        list_all2 (\<lambda>s b. format_story rp s = Inr b) (take 10 stories) blocks) \<and>
     (remote e (build_request e ''GET'' ''projects'' None None) = Success (JList records) \<and>
      map_result (format_project rp) records = Inr blocks \<longrightarrow>
        (\<exists>text. fst (handle_call_tool e rp ''list-projects'' (Some a)) = Inr [TextContent text] \<and>
           text = blocks_text ''Available projects:'' blocks \<and>
           (list_all (plain_record rp) records \<longrightarrow> count_blocks text = length records)) \<and>
        length blocks = length records \<and>
        list_all2 (\<lambda>r b. format_project rp r = Inr b) records blocks) \<and>
     (remote e (build_request e ''GET'' ''workflows'' None None) = Success (JList records) \<and>
      map_result (format_workflow rp) records = Inr blocks \<longrightarrow>
        (\<exists>text. fst (handle_call_tool e rp ''list-workflows'' (Some a)) = Inr [TextContent text] \<and>
           text = blocks_text ''Available workflows and states:'' blocks \<and>
           (list_all (plain_record rp) records \<longrightarrow> count_blocks text = length records)) \<and>
        length blocks = length records \<and>
        list_all2 (\<lambda>r b. format_workflow rp r = Inr b) records blocks) \<and>
     (remote e (build_request e ''GET'' ''objectives'' None (Some (status_params a))) =
        Success (JList records) \<and>
      map_result (format_objective rp) records = Inr blocks \<longrightarrow>
        (\<exists>text. fst (handle_call_tool e rp ''list-objectives'' (Some a)) = Inr [TextContent text] \<and>
           text = (if records = [] then ''No objectives found''
                   else blocks_text ''Objectives:'' blocks) \<and>
           (list_all (plain_record rp) records \<longrightarrow> count_blocks text = length records)) \<and>
        length blocks = length records \<and>
        list_all2 (\<lambda>r b. format_objective rp r = Inr b) records blocks) \<and>
     (remote e (build_request e ''GET'' ''epics'' None (Some (status_params a))) =
        Success (JList records) \<and>
      map_result (format_epic rp) records = Inr blocks \<longrightarrow>
        (\<exists>text. fst (handle_call_tool e rp ''list-epics'' (Some a)) = Inr [TextContent text] \<and>
           text = (if records = [] then ''No epics found''
                   else blocks_text ''Epics:'' blocks) \<and>
           (list_all (plain_record rp) records \<longrightarrow> count_blocks text = length records)) \<and>
        length blocks = length records \<and>
        list_all2 (\<lambda>r b. format_epic rp r = Inr b) records blocks)"
proof (intro conjI impI)
  assume h: "remote e (build_request e ''GET'' ''search/stories'' None
        (Some [(''query'', dict_get a ''query'')])) = Success (JDict d) \<and>
      map_of d ''data'' = Some (JList stories) \<and>
      map_result (format_story rp) (take 10 stories) = Inr blocks"
  then have r: "remote e (build_request e ''GET'' ''search/stories'' None
        (Some [(''query'', dict_get a ''query'')])) = Success (JDict d)"
    and dt: "map_of d ''data'' = Some (JList stories)"
    and m: "map_result (format_story rp) (take 10 stories) = Inr blocks" by simp_all
  show "\<exists>text. fst (handle_call_tool e rp ''search-stories'' (Some a)) = Inr [TextContent text] \<and>
           text = (if stories = []
                   then ''No stories found matching query: '' @ py_str rp (dict_get a ''query'')
                   else blocks_text ''Found stories:'' blocks) \<and>
           (list_all (plain_record rp) (take 10 stories) \<and>
            single_line (py_str rp (dict_get a ''query'')) \<longrightarrow>
              count_blocks text = min (length stories) 10)"
    using search_stories_text [OF tok args r dt m] search_count [OF m]
    by blast
  from map_result_length [OF m] show "length blocks = min (length stories) 10"
    by (simp add: min.commute)
  from m show "list_all2 (\<lambda>s b. format_story rp s = Inr b) (take 10 stories) blocks"
    by (simp add: map_result_Inr_iff)
next
  assume h: "remote e (build_request e ''GET'' ''projects'' None None) = Success (JList records) \<and>
      map_result (format_project rp) records = Inr blocks"
  then have r: "remote e (build_request e ''GET'' ''projects'' None None) = Success (JList records)"
    and m: "map_result (format_project rp) records = Inr blocks" by simp_all
  show "\<exists>text. fst (handle_call_tool e rp ''list-projects'' (Some a)) = Inr [TextContent text] \<and>
           text = blocks_text ''Available projects:'' blocks \<and>
           (list_all (plain_record rp) records \<longrightarrow> count_blocks text = length records)"
    using list_projects_text [OF tok args r m] projects_count [OF m]
    by blast
  from map_result_length [OF m] show "length blocks = length records" .
  from m show "list_all2 (\<lambda>r b. format_project rp r = Inr b) records blocks"
    by (simp add: map_result_Inr_iff)
next
  assume h: "remote e (build_request e ''GET'' ''workflows'' None None) = Success (JList records) \<and>
      map_result (format_workflow rp) records = Inr blocks"
  then have r: "remote e (build_request e ''GET'' ''workflows'' None None) = Success (JList records)"
    and m: "map_result (format_workflow rp) records = Inr blocks" by simp_all
  show "\<exists>text. fst (handle_call_tool e rp ''list-workflows'' (Some a)) = Inr [TextContent text] \<and>
           text = blocks_text ''Available workflows and states:'' blocks \<and>
           (list_all (plain_record rp) records \<longrightarrow> count_blocks text = length records)"
    using list_workflows_text [OF tok args r m] workflows_count [OF m]
    by blast
  from map_result_length [OF m] show "length blocks = length records" .
  from m show "list_all2 (\<lambda>r b. format_workflow rp r = Inr b) records blocks"
    by (simp add: map_result_Inr_iff)
next
  assume h: "remote e (build_request e ''GET'' ''objectives'' None (Some (status_params a))) =
        Success (JList records) \<and>
      map_result (format_objective rp) records = Inr blocks"
  then have r: "remote e (build_request e ''GET'' ''objectives'' None (Some (status_params a))) =
        Success (JList records)"
    and m: "map_result (format_objective rp) records = Inr blocks" by simp_all
  show "\<exists>text. fst (handle_call_tool e rp ''list-objectives'' (Some a)) = Inr [TextContent text] \<and>
           text = (if records = [] then ''No objectives found''
                   else blocks_text ''Objectives:'' blocks) \<and>
           (list_all (plain_record rp) records \<longrightarrow> count_blocks text = length records)"
    using list_objectives_text [OF tok args r m] objectives_count [OF m]
    by blast
  from map_result_length [OF m] show "length blocks = length records" .
  from m show "list_all2 (\<lambda>r b. format_objective rp r = Inr b) records blocks"
    by (simp add: map_result_Inr_iff)
next
  assume h: "remote e (build_request e ''GET'' ''epics'' None (Some (status_params a))) =
        Success (JList records) \<and>
      map_result (format_epic rp) records = Inr blocks"
  then have r: "remote e (build_request e ''GET'' ''epics'' None (Some (status_params a))) =
        Success (JList records)"
    and m: "map_result (format_epic rp) records = Inr blocks" by simp_all
  show "\<exists>text. fst (handle_call_tool e rp ''list-epics'' (Some a)) = Inr [TextContent text] \<and>
           text = (if records = [] then ''No epics found''
                   else blocks_text ''Epics:'' blocks) \<and>
           (list_all (plain_record rp) records \<longrightarrow> count_blocks text = length records)"
    using list_epics_text [OF tok args r m] epics_count [OF m]
    by blast
  from map_result_length [OF m] show "length blocks = length records" .
  from m show "list_all2 (\<lambda>r b. format_epic rp r = Inr b) records blocks"
    by (simp add: map_result_Inr_iff)
qed

theorem list_truncation_witness:
  "\<not> token_missing (fixture (Success (JDict [(''data'', JList fifteen_stories)]))) \<and>
   length fifteen_stories = 15 \<and>
   list_all (plain_record no_repr) (take 10 fifteen_stories) \<and>
   fst (handle_call_tool (fixture (Success (JDict [(''data'', JList fifteen_stories)]))) no_repr
          ''search-stories'' (Some [(''query'', JStr ''x'')])) =
     Inr [TextContent
            (blocks_text ''Found stories:'' (map story_block [1, 2, 3, 4, 5, 6, 7, 8, 9, 10]))] \<and>
   count_blocks
     (blocks_text ''Found stories:'' (map story_block [1, 2, 3, 4, 5, 6, 7, 8, 9, 10])) = 10 \<and>
   length twelve_epics = 12 \<and>
   list_all (plain_record no_repr) twelve_epics \<and>
   fst (handle_call_tool (fixture (Success (JList twelve_epics))) no_repr
          ''list-epics'' (Some [(''status'', JStr ''done'')])) =
     Inr [TextContent (blocks_text ''Epics:'' (replicate 12 epic_block))] \<and>
   count_blocks (blocks_text ''Epics:'' (replicate 12 epic_block)) = 12"
proof -
  let ?e = "fixture (Success (JDict [(''data'', JList fifteen_stories)]))"
  let ?a = "[(''query'', JStr ''x'')]"
  let ?blocks = "map story_block [1, 2, 3, 4, 5, 6, 7, 8, 9, 10]"
  let ?e' = "fixture (Success (JList twelve_epics))"
  let ?a' = "[(''status'', JStr ''done'')]"
  let ?blocks' = "replicate 12 epic_block"
  have tok: "\<not> token_missing ?e" and tok': "\<not> token_missing ?e'"
    by (simp_all add: fixture_def token_missing_def)
  have args: "?a \<noteq> []" and args': "?a' \<noteq> []" by simp_all
  have n: "length fifteen_stories = 15" and ne: "fifteen_stories \<noteq> []"
    by (simp_all add: fifteen_stories_def)
  have n': "length twelve_epics = 12" and ne': "twelve_epics \<noteq> []"
    by (simp_all add: twelve_epics_def)
  have t: "take 10 fifteen_stories = map story_record [1, 2, 3, 4, 5, 6, 7, 8, 9, 10]"
    by (simp add: fifteen_stories_def)
  have m: "map_result (format_story no_repr) (take 10 fifteen_stories) = Inr ?blocks"
    unfolding t by (simp add: format_story_record)
  have m': "map_result (format_epic no_repr) twelve_epics = Inr ?blocks'"
    by (simp add: twelve_epics_def format_epic_record eval_nat_numeral)
  have p: "list_all (plain_record no_repr) (take 10 fifteen_stories)"
    unfolding t
    by (simp add: story_record_def plain_dict_def single_line_Nil single_line_Cons str_int_def)
  have p': "list_all (plain_record no_repr) twelve_epics"
    by (simp add: twelve_epics_def epic_record_def plain_dict_def single_line_Nil
        single_line_Cons str_int_def)
  have q: "single_line (py_str no_repr (dict_get ?a ''query''))"
    by (simp add: dict_get_def single_line_Nil single_line_Cons)
  have r: "remote ?e (build_request ?e ''GET'' ''search/stories'' None
        (Some [(''query'', dict_get ?a ''query'')])) =
        Success (JDict [(''data'', JList fifteen_stories)])"
    by (simp add: fixture_def)
  have r': "remote ?e' (build_request ?e' ''GET'' ''epics'' None (Some (status_params ?a'))) =
        Success (JList twelve_epics)"
    by (simp add: fixture_def)
  have d: "map_of [(''data'', JList fifteen_stories)] ''data'' = Some (JList fifteen_stories)"
    by simp
  from list_truncation [OF tok args, of "[(''data'', JList fifteen_stories)]" fifteen_stories
      no_repr ?blocks] r d m ne p q n
  have c: "fst (handle_call_tool ?e no_repr ''search-stories'' (Some ?a)) =
     Inr [TextContent (blocks_text ''Found stories:'' ?blocks)] \<and>
     count_blocks (blocks_text ''Found stories:'' ?blocks) = 10"
    by simp
  from list_truncation [OF tok' args', of _ _ no_repr ?blocks' twelve_epics] r' m' ne' p' n'
  have c': "fst (handle_call_tool ?e' no_repr ''list-epics'' (Some ?a')) =
     Inr [TextContent (blocks_text ''Epics:'' ?blocks')] \<and>
     count_blocks (blocks_text ''Epics:'' ?blocks') = 12"
    by simp
  from tok n p c n' p' c' show ?thesis by simp
qed

section \<open>Creating a story\<close>

lemma format_story_starts:
  "format_story rp (JDict r) = Inr formatted \<Longrightarrow> map_of r ''id'' = Some story_id \<Longrightarrow>
     \<exists>rest. formatted = ''Story '' @ py_str rp story_id @ rest"
  by (auto simp add: format_story_def bind_r_def dict_item_def
      split: sum.splits option.splits)

lemma create_story_sent:
  assumes "\<not> token_missing e"
    and "map_of a ''name'' = Some n" "map_of a ''description'' = Some d"
    and "map_of a ''story_type'' = Some t" "map_of a ''project_id'' = Some p"
  shows "snd (create_story e rp a) =
     [build_request e ''POST'' ''stories''
        (Some [(''name'', n), (''description'', d), (''story_type'', t), (''project_id'', p)])
        None]"
  using assms
  by (simp add: create_story_def dict_item_Some post_request lift_def bind_io_def
      split: sum.splits)

lemma create_story_success:
  assumes "\<not> token_missing e"
    and "map_of a ''name'' = Some n" "map_of a ''description'' = Some d"
    and "map_of a ''story_type'' = Some t" "map_of a ''project_id'' = Some p"
    and "remote e (build_request e ''POST'' ''stories''
        (Some [(''name'', n), (''description'', d), (''story_type'', t), (''project_id'', p)])
        None) = Success story"
    and "format_story rp story = Inr formatted"
  shows "create_story e rp a =
     (Inr [TextContent (''Created new story:'' @ nl @ nl @ formatted)],
      [build_request e ''POST'' ''stories''
        (Some [(''name'', n), (''description'', d), (''story_type'', t), (''project_id'', p)])
        None])"
  using assms
  by (simp add: create_story_def dict_item_Some post_request lift_def send_def)

lemma created_story_text:
  assumes "format_story rp (JDict r) = Inr formatted" and "map_of r ''id'' = Some story_id"
  shows "sublist ''Created new story'' (''Created new story:'' @ nl @ nl @ formatted)"
    and "sublist (py_str rp story_id) (''Created new story:'' @ nl @ nl @ formatted)"
proof -
  have "''Created new story:'' @ nl @ nl @ formatted =
        [] @ ''Created new story'' @ ('':'' @ nl @ nl @ formatted)"
    by simp
  then show "sublist ''Created new story'' (''Created new story:'' @ nl @ nl @ formatted)"
    unfolding sublist_def by blast
  from format_story_starts [OF assms] obtain rest where
    "formatted = ''Story '' @ py_str rp story_id @ rest" by blast
  then have "''Created new story:'' @ nl @ nl @ formatted =
        (''Created new story:'' @ nl @ nl @ ''Story '') @ py_str rp story_id @ rest"
    by simp
  then show "sublist (py_str rp story_id) (''Created new story:'' @ nl @ nl @ formatted)"
    unfolding sublist_def by blast
qed

text \<open>
  C9: with a credential, \<open>create-story\<close> on arguments that hold name, description,
  story_type and project_id hands exactly one request to the network: a POST to the
  stories endpoint whose JSON body is exactly these four fields. When the remote answers
  with a story record that can be formatted, the result is one text block that contains
  "Created new story" and the \<open>str\<close> of the record's id.
\<close>

theorem create_story_posts_once:
  assumes tok: "\<not> token_missing e"
    and n: "map_of a ''name'' = Some n" and d: "map_of a ''description'' = Some d"
    and t: "map_of a ''story_type'' = Some t" and p: "map_of a ''project_id'' = Some p"
  shows
    "(let req = build_request e ''POST'' ''stories''
        (Some [(''name'', n), (''description'', d), (''story_type'', t), (''project_id'', p)])
        None
      in snd (handle_call_tool e rp ''create-story'' (Some a)) = [req] \<and>
         http_method req = ''POST'' \<and>
         url req = API_BASE_URL @ ''/stories'' \<and>
         json_body req =
           Some [(''name'', n), (''description'', d), (''story_type'', t), (''project_id'', p)] \<and>
         (remote e req = Success (JDict r) \<and> map_of r ''id'' = Some story_id \<and>
          format_story rp (JDict r) = Inr formatted \<longrightarrow>
            fst (handle_call_tool e rp ''create-story'' (Some a)) =
              Inr [TextContent (''Created new story:'' @ nl @ nl @ formatted)] \<and>
            sublist ''Created new story'' (''Created new story:'' @ nl @ nl @ formatted) \<and>
            sublist (py_str rp story_id) (''Created new story:'' @ nl @ nl @ formatted)))"
proof -
  let ?req = "build_request e ''POST'' ''stories''
        (Some [(''name'', n), (''description'', d), (''story_type'', t), (''project_id'', p)])
        None"
  from n have args: "a \<noteq> []" by auto
  have sent: "snd (handle_call_tool e rp ''create-story'' (Some a)) = [?req]"
    using create_story_sent [OF tok n d t p, of rp]
    by (simp add: handle_call_tool_sent [OF args] call_tool_body_def)
  have shape: "http_method ?req = ''POST''" "url ?req = API_BASE_URL @ ''/stories''"
    "json_body ?req =
       Some [(''name'', n), (''description'', d), (''story_type'', t), (''project_id'', p)]"
    by (simp_all add: build_request_def)
  have ok: "fst (handle_call_tool e rp ''create-story'' (Some a)) =
              Inr [TextContent (''Created new story:'' @ nl @ nl @ formatted)] \<and>
            sublist ''Created new story'' (''Created new story:'' @ nl @ nl @ formatted) \<and>
            sublist (py_str rp story_id) (''Created new story:'' @ nl @ nl @ formatted)"
    if h: "remote e ?req = Success (JDict r) \<and> map_of r ''id'' = Some story_id \<and>
          format_story rp (JDict r) = Inr formatted"
  proof -
    from h have r: "remote e ?req = Success (JDict r)" and i: "map_of r ''id'' = Some story_id"
      and f: "format_story rp (JDict r) = Inr formatted" by simp_all
    have "call_tool_body e rp ''create-story'' a =
       (Inr [TextContent (''Created new story:'' @ nl @ nl @ formatted)], [?req])"
      using create_story_success [OF tok n d t p r f] by (simp add: call_tool_body_def)
    then have "fst (handle_call_tool e rp ''create-story'' (Some a)) =
              Inr [TextContent (''Created new story:'' @ nl @ nl @ formatted)]"
      by (simp add: handle_call_tool_result [OF args])
    with created_story_text [OF f i] show ?thesis by simp
  qed
  from sent shape ok show ?thesis
    unfolding Let_def by blast
qed

theorem create_story_posts_once_witness:
  "snd (handle_call_tool (fixture (Success (story_record 123))) no_repr ''create-story''
          (Some [(''name'', JStr ''A''), (''description'', JStr ''B''),
                 (''story_type'', JStr ''bug''), (''project_id'', JInt 7)])) =
     [\<lparr> http_method = ''POST'', url = ''https://api.app.shortcut.com/api/v3/stories'',
        headers = [(''Content-Type'', ''application/json''), (''Shortcut-Token'', ''token'')],
        json_body = Some [(''name'', JStr ''A''), (''description'', JStr ''B''),
                          (''story_type'', JStr ''bug''), (''project_id'', JInt 7)],
        params = None, timeout = 30 \<rparr>] \<and>
   fst (handle_call_tool (fixture (Success (story_record 123))) no_repr ''create-story''
          (Some [(''name'', JStr ''A''), (''description'', JStr ''B''),
                 (''story_type'', JStr ''bug''), (''project_id'', JInt 7)])) =
     Inr [TextContent (''Created new story:'' @ nl @ nl @ story_block 123)] \<and>
   sublist ''Created new story'' (''Created new story:'' @ nl @ nl @ story_block 123) \<and>
   sublist ''123'' (''Created new story:'' @ nl @ nl @ story_block 123)"
proof -
  let ?e = "fixture (Success (story_record 123))"
  let ?a = "[(''name'', JStr ''A''), (''description'', JStr ''B''),
             (''story_type'', JStr ''bug''), (''project_id'', JInt 7)]"
  have tok: "\<not> token_missing ?e"
    by (simp add: fixture_def token_missing_def)
  have r: "remote ?e req = Success (JDict [(''id'', JInt 123), (''name'', JStr ''s'')])" for req
    by (simp add: fixture_def story_record_def)
  have f: "format_story no_repr (JDict [(''id'', JInt 123), (''name'', JStr ''s'')]) =
     Inr (story_block 123)"
    using format_story_record [of no_repr 123] by (simp add: story_record_def)
  have s: "py_str no_repr (JInt 123) = ''123''"
    by (simp add: str_int_def)
  from create_story_posts_once [of ?e ?a "JStr ''A''" "JStr ''B''" "JStr ''bug''" "JInt 7"
      no_repr "[(''id'', JInt 123), (''name'', JStr ''s'')]" "JInt 123" "story_block 123"]
    tok r f s
  show ?thesis
    by (simp add: Let_def build_request_def fixture_def API_BASE_URL_def)
qed

end
